theory Spec2Isabelle
  imports Main
begin

section \<open>Runtime environment\<close>

subsection \<open>Thrown values\<close>

text \<open>
  Node reports a failed system call as an \<open>Error\<close> object whose \<open>code\<close> property is the
  errno name.  \<open>write(2)\<close> and \<open>close(2)\<close> have their own, smaller set of failure codes
  (\<open>io_errno\<close>): POSIX gives neither of them \<open>EEXIST\<close>.
\<close>

datatype io_errno = IO_ENOSPC | IO_EIO | IO_EDQUOT | IO_EBADF | IO_EINTR

datatype errno =
    EEXIST | EACCES | EPERM | EISDIR | ENOENT | ENOTDIR | EROFS | EMFILE
  | ENOSPC | EIO | EDQUOT | EBADF | EINTR

fun errno_of_io :: "io_errno \<Rightarrow> errno" where
  "errno_of_io IO_ENOSPC = ENOSPC"
| "errno_of_io IO_EIO = EIO"
| "errno_of_io IO_EDQUOT = EDQUOT"
| "errno_of_io IO_EBADF = EBADF"
| "errno_of_io IO_EINTR = EINTR"

text \<open>
  What a \<open>throw\<close> can carry: a system error, one of the built-in error classes with its
  message, or (\<open>NonError\<close>) a value that is not an \<open>Error\<close> object at all.
\<close>

datatype error =
    SystemError errno
  | TypeError string
  | SyntaxError string
  | Error string
  | NonError string

text \<open>\<open>err.code\<close>: only system errors carry one.\<close>

fun code :: "error \<Rightarrow> errno option" where
  "code (SystemError e) = Some e"
| "code (TypeError _) = None"
| "code (SyntaxError _) = None"
| "code (Error _) = None"
| "code (NonError _) = None"

fun errno_name :: "errno \<Rightarrow> string" where
  "errno_name EEXIST = ''EEXIST''"
| "errno_name EACCES = ''EACCES''"
| "errno_name EPERM = ''EPERM''"
| "errno_name EISDIR = ''EISDIR''"
| "errno_name ENOENT = ''ENOENT''"
| "errno_name ENOTDIR = ''ENOTDIR''"
| "errno_name EROFS = ''EROFS''"
| "errno_name EMFILE = ''EMFILE''"
| "errno_name ENOSPC = ''ENOSPC''"
| "errno_name EIO = ''EIO''"
| "errno_name EDQUOT = ''EDQUOT''"
| "errno_name EBADF = ''EBADF''"
| "errno_name EINTR = ''EINTR''"

text \<open>\<open>e instanceof Error\<close> and \<open>e.message\<close>.\<close>

fun instanceof_Error :: "error \<Rightarrow> bool" where
  "instanceof_Error (NonError _) = False"
| "instanceof_Error _ = True"

fun message :: "error \<Rightarrow> string" where
  "message (SystemError e) = errno_name e"
| "message (TypeError s) = s"
| "message (SyntaxError s) = s"
| "message (Error s) = s"
| "message (NonError s) = s"

subsection \<open>JSON values\<close>

text \<open>
  \<open>JSON.parse\<close> and \<open>JSON.stringify\<close> belong to the JavaScript runtime, not to the
  repository: they are a parameter of the model (\<open>parse\<close> gives \<open>None\<close> where
  \<open>JSON.parse\<close> throws a \<open>SyntaxError\<close>).  Numbers are modelled as integers.
\<close>

datatype json =
    JNull | JBool bool | JNum int | JStr string
  | JArr "json list" | JObj "(string \<times> json) list"

datatype jsval = Undefined | Val json

record JSON =
  parse :: "string \<Rightarrow> json option"
  stringify :: "json \<Rightarrow> string"

text \<open>
  Property read \<open>v.k\<close> on a parsed value: \<open>null.k\<close> throws a \<open>TypeError\<close>; an object
  gives the member (the last one when the text repeated the key) or \<open>undefined\<close>; numbers,
  strings, booleans and arrays have none of the keys read here.
\<close>

fun get_prop :: "json \<Rightarrow> string \<Rightarrow> error + jsval" where
  "get_prop JNull k = Inl (TypeError ''Cannot read properties of null'')"
| "get_prop (JObj kvs) k =
     Inr (case map_of (rev kvs) k of None \<Rightarrow> Undefined | Some v \<Rightarrow> Val v)"
| "get_prop (JBool _) k = Inr Undefined"
| "get_prop (JNum _) k = Inr Undefined"
| "get_prop (JStr _) k = Inr Undefined"
| "get_prop (JArr _) k = Inr Undefined"

fun typeof :: "jsval \<Rightarrow> string" where
  "typeof Undefined = ''undefined''"
| "typeof (Val JNull) = ''object''"
| "typeof (Val (JBool _)) = ''boolean''"
| "typeof (Val (JNum _)) = ''number''"
| "typeof (Val (JStr _)) = ''string''"
| "typeof (Val (JArr _)) = ''object''"
| "typeof (Val (JObj _)) = ''object''"

subsection \<open>Number formatting\<close>

definition digit :: "nat \<Rightarrow> char" where
  "digit d = ''0123456789'' ! d"

fun digits :: "nat \<Rightarrow> string" where
  "digits n = (if n < 10 then [digit n] else digits (n div 10) @ [digit (n mod 10)])"

declare digits.simps [simp del]

definition toString :: "int \<Rightarrow> string" where
  "toString i = (if i < 0 then CHR ''-'' # digits (nat (- i)) else digits (nat i))"

subsection \<open>The host: filesystem, process table, clock, ports\<close>

datatype node = File string | Dir

text \<open>
  \<open>files\<close> maps a path to what is there.  The \<open>*_fault\<close> fields are the failures the host
  injects for reasons other than what is at the path (permissions, a read-only or full
  disk, a missing parent directory).  \<open>alive p\<close> says that the null-signal probe
  \<open>process.kill(p, 0)\<close> succeeds; \<open>clock\<close> is \<open>Date.now()\<close>; \<open>port_busy t p\<close> says that a
  listener cannot bind port \<open>p\<close> at time \<open>t\<close>.  The clock does not run backwards:
  \<open>lapse t\<close> is the time, zero or more, that passes between a reading \<open>t\<close> of the clock
  and the next reading.
\<close>

record world =
  files :: "string \<rightharpoonup> node"
  open_fault :: "string \<Rightarrow> errno option"
  write_fault :: "io_errno option"
  close_fault :: "io_errno option"
  read_fault :: "string \<Rightarrow> errno option"
  unlink_fault :: "string \<Rightarrow> errno option"
  alive :: "int \<Rightarrow> bool"
  clock :: int
  lapse :: "int \<Rightarrow> nat"
  port_busy :: "int \<Rightarrow> int \<Rightarrow> bool"

text \<open>
  \<open>fs.openSync(path, 'wx')\<close> is \<open>open(2)\<close> with \<open>O_WRONLY | O_CREAT | O_EXCL\<close>: it fails
  with \<open>EEXIST\<close> when anything, a file or a directory, is at the path, and creates an
  empty file otherwise.  The descriptor is modelled by the path it was opened on, which
  is exact as long as the file is not unlinked while it is open.
\<close>

definition openSync_wx :: "string \<Rightarrow> world \<Rightarrow> error + (string \<times> world)" where
  "openSync_wx p w =
     (case open_fault w p of
        Some e \<Rightarrow> Inl (SystemError e)
      | None \<Rightarrow>
          (case files w p of
             Some _ \<Rightarrow> Inl (SystemError EEXIST)
           | None \<Rightarrow> Inr (p, w\<lparr>files := (files w)(p \<mapsto> File [])\<rparr>)))"

definition writeFileSync_fd :: "string \<Rightarrow> string \<Rightarrow> world \<Rightarrow> error + world" where
  "writeFileSync_fd fd data w =
     (case write_fault w of
        Some e \<Rightarrow> Inl (SystemError (errno_of_io e))
      | None \<Rightarrow> Inr (w\<lparr>files := (files w)(fd \<mapsto> File data)\<rparr>))"

definition closeSync :: "string \<Rightarrow> world \<Rightarrow> error + world" where
  "closeSync fd w =
     (case close_fault w of
        Some e \<Rightarrow> Inl (SystemError (errno_of_io e))
      | None \<Rightarrow> Inr w)"

definition existsSync :: "string \<Rightarrow> world \<Rightarrow> bool" where
  "existsSync p w = (files w p \<noteq> None)"

definition readFileSync :: "string \<Rightarrow> world \<Rightarrow> error + string" where
  "readFileSync p w =
     (case read_fault w p of
        Some e \<Rightarrow> Inl (SystemError e)
      | None \<Rightarrow>
          (case files w p of
             None \<Rightarrow> Inl (SystemError ENOENT)
           | Some Dir \<Rightarrow> Inl (SystemError EISDIR)
           | Some (File s) \<Rightarrow> Inr s))"

text \<open>\<open>fs.writeFileSync(path, data, {flag: 'w'})\<close>: create or truncate, then write.\<close>

definition writeFileSync :: "string \<Rightarrow> string \<Rightarrow> world \<Rightarrow> error + world" where
  "writeFileSync p data w =
     (case open_fault w p of
        Some e \<Rightarrow> Inl (SystemError e)
      | None \<Rightarrow>
          (case files w p of
             Some Dir \<Rightarrow> Inl (SystemError EISDIR)
           | _ \<Rightarrow> writeFileSync_fd p data w))"

definition unlinkSync :: "string \<Rightarrow> world \<Rightarrow> error + world" where
  "unlinkSync p w =
     (case unlink_fault w p of
        Some e \<Rightarrow> Inl (SystemError e)
      | None \<Rightarrow>
          (case files w p of
             None \<Rightarrow> Inl (SystemError ENOENT)
           | Some Dir \<Rightarrow> Inl (SystemError EISDIR)
           | Some (File _) \<Rightarrow> Inr (w\<lparr>files := (files w)(p := None)\<rparr>)))"

text \<open>
  \<open>path.join(dir, name)\<close> for a normalised directory (as \<open>os.tmpdir()\<close> gives it) and a
  plain file name: one separator between them, none added after a directory that ends
  with one (the root), none before an empty directory.
\<close>

definition path_join :: "string \<Rightarrow> string \<Rightarrow> string" where
  "path_join dir name =
     (if dir = [] then name
      else if last dir = CHR ''/'' then dir @ name
      else dir @ ''/'' @ name)"

section \<open>InstanceManager\<close>

record InstanceLock =
  pid :: int
  version :: string
  timestamp :: int

datatype InstanceRole = MAIN | PROXY | UNKNOWN

record InstanceManagerOptions =
  opt_lockPath :: "string option"
  opt_port :: "int option"
  opt_getVersion :: "string option"

text \<open>
  The instance state.  \<open>getVersion\<close> is the string the version getter returns (the getter
  is a pure function); \<open>lock\<close> is the record this instance last wrote or read.
\<close>

record InstanceManager =
  lockPath :: string
  port :: int
  getVersion :: string
  role :: InstanceRole
  proxyPort :: "int option"
  lock :: "InstanceLock option"

definition defaultVersion :: string where
  "defaultVersion = ''0.1.0''"

text \<open>The constructor; \<open>tmpdir\<close> is \<open>os.tmpdir()\<close>.\<close>

definition new_InstanceManager :: "string \<Rightarrow> InstanceManagerOptions \<Rightarrow> InstanceManager" where
  "new_InstanceManager tmpdir opts =
     \<lparr> lockPath = (case opt_lockPath opts of
                     Some p \<Rightarrow> p
                   | None \<Rightarrow> path_join tmpdir ''mcp-kit-8989.lock''),
       port = (case opt_port opts of Some p \<Rightarrow> p | None \<Rightarrow> 8989),
       getVersion = (case opt_getVersion opts of Some v \<Rightarrow> v | None \<Rightarrow> defaultVersion),
       role = UNKNOWN,
       proxyPort = None,
       lock = None \<rparr>"

text \<open>
  The default lock path as the documentation words it: the temporary directory joined
  with \<open>mcp-kit-<port>.lock\<close>.
\<close>

definition documented_default_lockPath :: "string \<Rightarrow> int \<Rightarrow> string" where
  "documented_default_lockPath tmpdir p = path_join tmpdir (''mcp-kit-'' @ toString p @ ''.lock'')"

definition lock_json :: "InstanceLock \<Rightarrow> json" where
  "lock_json l =
     JObj [(''pid'', JNum (pid l)), (''version'', JStr (version l)), (''timestamp'', JNum (timestamp l))]"

type_synonym inst = "InstanceManager \<times> world"

text \<open>
  The \<open>try\<close> block of \<open>tryBecomeMain\<close>: open exclusively, write the record, close, then
  take the role.  \<open>self\<close> is \<open>process.pid\<close>.
\<close>

definition tryBecomeMain_try :: "JSON \<Rightarrow> int \<Rightarrow> inst \<Rightarrow> (error + bool) \<times> inst" where
  "tryBecomeMain_try J self = (\<lambda>(m, w).
     case openSync_wx (lockPath m) w of
       Inl e \<Rightarrow> (Inl e, (m, w))
     | Inr (fd, w1) \<Rightarrow>
         (let l = \<lparr> pid = self, version = getVersion m, timestamp = clock w1 \<rparr> in
          case writeFileSync_fd fd (stringify J (lock_json l)) w1 of
            Inl e \<Rightarrow> (Inl e, (m, w1))
          | Inr w2 \<Rightarrow>
              (case closeSync fd w2 of
                 Inl e \<Rightarrow> (Inl e, (m, w2))
               | Inr w3 \<Rightarrow> (Inr True, (m\<lparr>lock := Some l, role := MAIN\<rparr>, w3)))))"

text \<open>The \<open>catch\<close> clause: \<open>EEXIST\<close> becomes \<open>false\<close>, anything else is thrown again.\<close>

definition tryBecomeMain_catch :: "error \<Rightarrow> error + bool" where
  "tryBecomeMain_catch err = (if code err = Some EEXIST then Inr False else Inl err)"

definition tryBecomeMain :: "JSON \<Rightarrow> int \<Rightarrow> inst \<Rightarrow> (error + bool) \<times> inst" where
  "tryBecomeMain J self s =
     (case tryBecomeMain_try J self s of
        (Inl err, s') \<Rightarrow> (tryBecomeMain_catch err, s')
      | (Inr b, s') \<Rightarrow> (Inr b, s'))"

text \<open>
  The \<open>try\<close> block of \<open>readLock\<close>: read, parse, check the three field types (the
  conjunction short-circuits, left to right).
\<close>

definition readLock_try :: "JSON \<Rightarrow> inst \<Rightarrow> (error + InstanceLock option) \<times> inst" where
  "readLock_try J = (\<lambda>(m, w).
     case readFileSync (lockPath m) w of
       Inl e \<Rightarrow> (Inl e, (m, w))
     | Inr raw \<Rightarrow>
         (case parse J raw of
            None \<Rightarrow> (Inl (SyntaxError ''Unexpected token''), (m, w))
          | Some j \<Rightarrow>
              (case get_prop j ''pid'' of
                 Inl e \<Rightarrow> (Inl e, (m, w))
               | Inr (Val (JNum p)) \<Rightarrow>
                   (case get_prop j ''version'' of
                      Inl e \<Rightarrow> (Inl e, (m, w))
                    | Inr (Val (JStr v)) \<Rightarrow>
                        (case get_prop j ''timestamp'' of
                           Inl e \<Rightarrow> (Inl e, (m, w))
                         | Inr (Val (JNum t)) \<Rightarrow>
                             (let l = \<lparr> pid = p, version = v, timestamp = t \<rparr>
                              in (Inr (Some l), (m\<lparr>lock := Some l\<rparr>, w)))
                         | Inr _ \<Rightarrow> (Inr None, (m, w)))
                    | Inr _ \<Rightarrow> (Inr None, (m, w)))
               | Inr _ \<Rightarrow> (Inr None, (m, w)))))"

definition readLock :: "JSON \<Rightarrow> inst \<Rightarrow> (error + InstanceLock option) \<times> inst" where
  "readLock J = (\<lambda>(m, w).
     if \<not> existsSync (lockPath m) w then (Inr None, (m\<lparr>lock := None\<rparr>, w))
     else (case readLock_try J (m, w) of
             (Inl _, s') \<Rightarrow> (Inr None, s')
           | (Inr r, s') \<Rightarrow> (Inr r, s')))"

definition writeLock :: "JSON \<Rightarrow> int \<Rightarrow> inst \<Rightarrow> (error + unit) \<times> inst" where
  "writeLock J self = (\<lambda>(m, w).
     let l = \<lparr> pid = self, version = getVersion m, timestamp = clock w \<rparr> in
     case writeFileSync (lockPath m) (stringify J (lock_json l)) w of
       Inl e \<Rightarrow> (Inl e, (m, w))
     | Inr w' \<Rightarrow> (Inr (), (m\<lparr>lock := Some l\<rparr>, w')))"

definition removeLock :: "inst \<Rightarrow> (error + unit) \<times> inst" where
  "removeLock = (\<lambda>(m, w).
     case unlinkSync (lockPath m) w of
       Inl _ \<Rightarrow> (Inr (), (m, w))
     | Inr w' \<Rightarrow> (Inr (), (m, w')))"

text \<open>
  \<open>isPidAlive\<close>; \<open>kill0 p\<close> says that \<open>process.kill(p, 0)\<close> returns rather than throws.
\<close>

definition isPidAlive :: "(int \<Rightarrow> bool) \<Rightarrow> int \<Rightarrow> bool" where
  "isPidAlive kill0 p = (if p \<le> 0 then False else kill0 p)"

text \<open>
  The polling loop of \<open>waitForPort\<close>.  \<open>now\<close> is the reading of the clock in the loop
  condition; \<open>busy t\<close> says that binding the port fails at time \<open>t\<close>; a failed attempt
  is followed by the 300 ms timer, and the next reading comes 300 ms or more after
  this one.  The result carries the last reading.
\<close>

function waitForPort_loop ::
  "(int \<Rightarrow> bool) \<Rightarrow> (int \<Rightarrow> nat) \<Rightarrow> int \<Rightarrow> int \<Rightarrow> int \<Rightarrow> bool \<times> int" where
  "waitForPort_loop busy gap start timeout now =
     (if now - start < timeout
      then (if \<not> busy now then (True, now)
            else waitForPort_loop busy gap start timeout (now + 300 + int (gap now)))
      else (False, now))"
  by pat_completeness auto
termination
  by (relation "measure (\<lambda>(busy, gap, start, timeout, now). nat (timeout - (now - start)))") auto

declare waitForPort_loop.simps [simp del]

text \<open>
  \<open>waitForPort\<close> reads the clock twice before the first attempt: once for \<open>start\<close>, once
  in the loop condition.
\<close>

definition waitForPort :: "int option \<Rightarrow> inst \<Rightarrow> (error + bool) \<times> inst" where
  "waitForPort timeoutMs = (\<lambda>(m, w).
     let timeout = (case timeoutMs of Some t \<Rightarrow> t | None \<Rightarrow> 10000);
         start = clock w;
         (r, t') = waitForPort_loop (\<lambda>t. port_busy w t (port m)) (lapse w) start timeout
                     (start + int (lapse w start))
     in (Inr r, (m, w\<lparr>clock := t'\<rparr>)))"

section \<open>The coordinator\<close>

subsection \<open>The manager interface and the record of calls\<close>

text \<open>
  \<open>coordinateInstanceRole\<close> and \<open>startMcpServer\<close> are written against the interface
  \<open>IInstanceManager\<close>: any implementation, over any state \<open>'s\<close>.  Each method takes the
  state and returns a value or a thrown error, with the new state.
\<close>

record 's IInstanceManager =
  im_port :: "'s \<Rightarrow> int"
  im_version :: "'s \<Rightarrow> string option"
  im_tryBecomeMain :: "'s \<Rightarrow> (error + bool) \<times> 's"
  im_readLock :: "'s \<Rightarrow> (error + InstanceLock option) \<times> 's"
  im_removeLock :: "'s \<Rightarrow> (error + unit) \<times> 's"
  im_fetchMainVersion :: "'s \<Rightarrow> (error + string option) \<times> 's"
  im_requestMainTransition :: "'s \<Rightarrow> (error + bool) \<times> 's"
  im_waitForPort :: "int option \<Rightarrow> 's \<Rightarrow> (error + bool) \<times> 's"

datatype mode = stdio | http

record ProxyMetadata =
  mainVersion :: "string option"
  mainPort :: "int option"
  instanceId :: "string option"
  startTime :: "int option"

record ProxyStartOptions =
  targetPort :: int
  listenPort :: "int option"
  metadata :: "ProxyMetadata option"

record StdioProxyConfig =
  sp_port :: int
  sp_serverName :: "string option"
  sp_serverVersion :: "string option"
  sp_clientName :: "string option"
  sp_debug :: "bool option"

text \<open>Every call that leaves the function being modelled is recorded, in order.\<close>

datatype call =
    TryBecomeMain | ReadLock | RemoveLock | IsPidAlive int
  | FetchMainVersion | RequestMainTransition | WaitForPort "int option"
  | DisplayHelp | OnInitialize | ConsoleError string | ConsoleLog string
  | StartStdioProxy StdioProxyConfig | ProxyManagerStart ProxyStartOptions
  | OnLocalStart | EnsurePortAvailable int bool | OnBeforeStart
  | StartStdioServer | StartHonoMcpServer

type_synonym ('s, 'a) prog = "'s \<times> call list \<Rightarrow> (error + 'a) \<times> ('s \<times> call list)"

definition invoke :: "call \<Rightarrow> ('s \<Rightarrow> (error + 'a) \<times> 's) \<Rightarrow> ('s, 'a) prog" where
  "invoke c f = (\<lambda>(s, tr). case f s of (r, s') \<Rightarrow> (r, (s', tr @ [c])))"

definition and_then :: "('s, 'a) prog \<Rightarrow> ('a \<Rightarrow> ('s, 'b) prog) \<Rightarrow> ('s, 'b) prog" where
  "and_then m k = (\<lambda>st. case m st of (Inl e, st') \<Rightarrow> (Inl e, st') | (Inr x, st') \<Rightarrow> k x st')"

definition return :: "'a \<Rightarrow> ('s, 'a) prog" where
  "return x = (\<lambda>st. (Inr x, st))"

definition throw :: "error \<Rightarrow> ('s, 'a) prog" where
  "throw e = (\<lambda>st. (Inl e, st))"

subsection \<open>coordinateInstanceRole\<close>

record CoordinateInstanceOptions =
  desiredVersion :: "string option"
  waitForPortTimeoutMs :: "int option"
  removeStaleLock :: "bool option"

datatype reason = initial | lock_missing | stale_lock | version_transition

text \<open>
  The result: \<open>MainResult reason previousVersion\<close> (the field \<open>previousVersion\<close> is absent,
  \<open>None\<close>, except after a version transition, where it holds the fetched version, itself
  a string or \<open>null\<close>) or \<open>ProxyResult mainVersion\<close>, whose reason is always
  \<open>existing-main\<close>.
\<close>

datatype CoordinateInstanceResult =
    MainResult reason "string option option"
  | ProxyResult "string option"

definition desiredVersion_of :: "CoordinateInstanceOptions \<Rightarrow> 's IInstanceManager \<Rightarrow> 's \<Rightarrow> string" where
  "desiredVersion_of opts im s =
     (case desiredVersion opts of
        Some v \<Rightarrow> v
      | None \<Rightarrow> (case im_version im s of Some v \<Rightarrow> v | None \<Rightarrow> defaultVersion))"

definition waitForPortTimeoutMs_of :: "CoordinateInstanceOptions \<Rightarrow> int" where
  "waitForPortTimeoutMs_of opts = (case waitForPortTimeoutMs opts of Some t \<Rightarrow> t | None \<Rightarrow> 10000)"

definition removeStaleLock_of :: "CoordinateInstanceOptions \<Rightarrow> bool" where
  "removeStaleLock_of opts = (case removeStaleLock opts of Some b \<Rightarrow> b | None \<Rightarrow> True)"

text \<open>
  \<open>!inspectedLock || !InstanceManager.isPidAlive(inspectedLock.pid)\<close>: the probe runs only
  when a record was read.  \<open>kill0 s\<close> is the host's null-signal probe in state \<open>s\<close>.
\<close>

definition isLockStale :: "('s \<Rightarrow> int \<Rightarrow> bool) \<Rightarrow> InstanceLock option \<Rightarrow> ('s, bool) prog" where
  "isLockStale kill0 inspectedLock =
     (case inspectedLock of
        None \<Rightarrow> return True
      | Some l \<Rightarrow> invoke (IsPidAlive (pid l)) (\<lambda>s. (Inr (\<not> isPidAlive (kill0 s) (pid l)), s)))"

text \<open>
  The stale-lock block (\<open>if (removeStaleLock) { ... }\<close>): \<open>Some\<close> result when it returns
  from the function, \<open>None\<close> when control falls through to the version check.
\<close>

definition staleLockPhase ::
  "'s IInstanceManager \<Rightarrow> ('s \<Rightarrow> int \<Rightarrow> bool) \<Rightarrow> CoordinateInstanceOptions
     \<Rightarrow> ('s, CoordinateInstanceResult option) prog" where
  "staleLockPhase im kill0 opts =
     (if removeStaleLock_of opts then
        and_then (invoke ReadLock (im_readLock im)) (\<lambda>inspectedLock.
        and_then (isLockStale kill0 inspectedLock) (\<lambda>stale.
          if stale then
            and_then (invoke RemoveLock (im_removeLock im)) (\<lambda>_.
            and_then (invoke TryBecomeMain (im_tryBecomeMain im)) (\<lambda>ok.
              if ok then
                return (Some (MainResult
                  (if inspectedLock \<noteq> None then stale_lock else lock_missing) None))
              else return None))
          else return None))
      else return None)"

text \<open>From \<open>fetchMainVersion\<close> to the end of the function.\<close>

definition versionPhase ::
  "'s IInstanceManager \<Rightarrow> CoordinateInstanceOptions \<Rightarrow> string
     \<Rightarrow> ('s, CoordinateInstanceResult) prog" where
  "versionPhase im opts desired =
     and_then (invoke FetchMainVersion (im_fetchMainVersion im)) (\<lambda>mainVer.
       if mainVer \<noteq> Some desired then
         and_then (invoke RequestMainTransition (im_requestMainTransition im)) (\<lambda>transitioned.
           if \<not> transitioned then
             throw (Error ''Failed to transition existing main instance to proxy mode.'')
           else
             and_then (invoke (WaitForPort (Some (waitForPortTimeoutMs_of opts)))
                         (im_waitForPort im (Some (waitForPortTimeoutMs_of opts)))) (\<lambda>_.
             and_then (invoke RemoveLock (im_removeLock im)) (\<lambda>_.
             and_then (invoke TryBecomeMain (im_tryBecomeMain im)) (\<lambda>ok.
               if ok then return (MainResult version_transition (Some mainVer))
               else throw (Error
                 ''Failed to assume main role after successful transition request.'')))))
       else return (ProxyResult mainVer))"

definition coordinateInstanceRole ::
  "'s IInstanceManager \<Rightarrow> ('s \<Rightarrow> int \<Rightarrow> bool) \<Rightarrow> CoordinateInstanceOptions
     \<Rightarrow> ('s, CoordinateInstanceResult) prog" where
  "coordinateInstanceRole im kill0 opts = (\<lambda>(s, tr).
     let desired = desiredVersion_of opts im s in
     and_then (invoke TryBecomeMain (im_tryBecomeMain im)) (\<lambda>ok.
       if ok then return (MainResult initial None)
       else
         and_then (staleLockPhase im kill0 opts) (\<lambda>r.
           case r of
             Some res \<Rightarrow> return res
           | None \<Rightarrow> versionPhase im opts desired)) (s, tr))"

subsection \<open>The node implementation of the interface\<close>

text \<open>
  The two control-plane requests are HTTP exchanges with another process; what they
  resolve to is given by the host (\<open>version_reply\<close>, \<open>transition_reply\<close>).
\<close>

record control_plane =
  version_reply :: "string option"
  transition_reply :: bool

definition InstanceManager_impl :: "JSON \<Rightarrow> int \<Rightarrow> control_plane \<Rightarrow> inst IInstanceManager" where
  "InstanceManager_impl J self cp =
     \<lparr> im_port = (\<lambda>(m, w). port m),
       im_version = (\<lambda>(m, w). Some (getVersion m)),
       im_tryBecomeMain = tryBecomeMain J self,
       im_readLock = readLock J,
       im_removeLock = removeLock,
       im_fetchMainVersion = (\<lambda>s. (Inr (version_reply cp), s)),
       im_requestMainTransition = (\<lambda>s. (Inr (transition_reply cp), s)),
       im_waitForPort = waitForPort \<rparr>"

section \<open>The reverse proxy\<close>

text \<open>
  A request URL is kept in its parts: \<open>search\<close> is the query string with its question
  mark, empty when there is none.  Header names are stored in lower case, as the
  \<open>Headers\<close> class normalises them.
\<close>

record URL =
  origin :: string
  pathname :: string
  search :: string

record Request =
  req_method :: string
  req_url :: URL
  req_headers :: "string \<rightharpoonup> string"
  req_body :: string

record Response =
  status :: int
  res_headers :: "string \<rightharpoonup> string"
  res_body :: string

text \<open>
  \<open>c.req.path\<close> is the router's path of the request: the part of the URL after the
  host, up to the question mark.
\<close>

definition c_req_path :: "Request \<Rightarrow> string" where
  "c_req_path r = pathname (req_url r)"

text \<open>
  \<open>new Request(url, init)\<close> takes the URL from its first argument and method, headers
  and body from the second.  It throws a \<open>TypeError\<close> for a forbidden method and for a
  \<open>GET\<close> or \<open>HEAD\<close> that carries a body (the empty body stands for none).  Method
  names are in upper case, as the HTTP parser delivers them.
\<close>

definition forbidden_method :: "string \<Rightarrow> bool" where
  "forbidden_method m = (m = ''CONNECT'' \<or> m = ''TRACE'' \<or> m = ''TRACK'')"

definition new_Request :: "URL \<Rightarrow> Request \<Rightarrow> error + Request" where
  "new_Request u init =
     (if forbidden_method (req_method init) then
        Inl (TypeError (req_method init @ '' HTTP method is unsupported.''))
      else if (req_method init = ''GET'' \<or> req_method init = ''HEAD'') \<and> req_body init \<noteq> [] then
        Inl (TypeError ''Request with GET/HEAD method cannot have body.'')
      else Inr (init\<lparr>req_url := u\<rparr>))"

text \<open>
  \<open>headers.set(name, value)\<close> strips leading and trailing HTTP whitespace from the
  value and throws a \<open>TypeError\<close> when what is left holds a NUL, a line feed or a
  carriage return.
\<close>

definition http_whitespace :: "char \<Rightarrow> bool" where
  "http_whitespace c = (c = CHR 0x09 \<or> c = CHR 0x0A \<or> c = CHR 0x0D \<or> c = CHR 0x20)"

definition normalize_value :: "string \<Rightarrow> string" where
  "normalize_value v = rev (dropWhile http_whitespace (rev (dropWhile http_whitespace v)))"

definition valid_header_value :: "string \<Rightarrow> bool" where
  "valid_header_value v = list_all (\<lambda>c. c \<noteq> CHR 0x00 \<and> c \<noteq> CHR 0x0A \<and> c \<noteq> CHR 0x0D) v"

definition headers_set :: "string \<Rightarrow> string \<Rightarrow> Request \<Rightarrow> error + Request" where
  "headers_set name v r =
     (if valid_header_value (normalize_value v)
      then Inr (r\<lparr>req_headers := (req_headers r)(name \<mapsto> normalize_value v)\<rparr>)
      else Inl (TypeError ''Headers.set: invalid header value.''))"

definition c_json :: "JSON \<Rightarrow> json \<Rightarrow> int \<Rightarrow> Response" where
  "c_json J obj st =
     \<lparr> status = st,
       res_headers = [''content-type'' \<mapsto> ''application/json''],
       res_body = stringify J obj \<rparr>"

text \<open>
  The template \<open>http://127.0.0.1:${targetPort}${c.req.path}\<close>, parsed: the path has no
  question mark, so the URL has no query.
\<close>

definition targetUrl :: "int \<Rightarrow> Request \<Rightarrow> URL" where
  "targetUrl tp r =
     \<lparr> origin = ''http://127.0.0.1:'' @ toString tp, pathname = c_req_path r, search = [] \<rparr>"

definition set_metadata_headers :: "int \<Rightarrow> ProxyMetadata \<Rightarrow> Request \<Rightarrow> error + Request" where
  "set_metadata_headers tp md r0 =
     (case (case mainVersion md of
              Some v \<Rightarrow> if v \<noteq> [] then headers_set ''x-proxy-main-version'' v r0 else Inr r0
            | None \<Rightarrow> Inr r0) of
        Inl e \<Rightarrow> Inl e
      | Inr r1 \<Rightarrow>
          (case (case instanceId md of
                   Some i \<Rightarrow> if i \<noteq> [] then headers_set ''x-proxy-instance-id'' i r1 else Inr r1
                 | None \<Rightarrow> Inr r1) of
             Inl e \<Rightarrow> Inl e
           | Inr r2 \<Rightarrow>
               (case (case startTime md of
                        Some t \<Rightarrow>
                          if t \<noteq> 0 then headers_set ''x-proxy-start-time'' (toString t) r2
                          else Inr r2
                      | None \<Rightarrow> Inr r2) of
                  Inl e \<Rightarrow> Inl e
                | Inr r3 \<Rightarrow>
                    headers_set ''x-proxy-main-port''
                      (case mainPort md of Some p \<Rightarrow> toString p | None \<Rightarrow> toString tp) r3)))"

text \<open>
  The request handed to \<open>fetch\<close>, or what the statements before the \<open>try\<close> block throw.
\<close>

definition upstreamReq :: "int \<Rightarrow> ProxyMetadata option \<Rightarrow> Request \<Rightarrow> error + Request" where
  "upstreamReq tp md r =
     (case new_Request (targetUrl tp r) r of
        Inl e \<Rightarrow> Inl e
      | Inr u \<Rightarrow> (case md of None \<Rightarrow> Inr u | Some d \<Rightarrow> set_metadata_headers tp d u))"

text \<open>
  The handler that \<open>createProxyApp\<close> registers for every method and path.  \<open>fetch\<close> is the
  upstream exchange: a response, or the error it rejects with.  Only the exchange is
  inside the \<open>try\<close> block; what the construction of the upstream request throws leaves
  the handler.
\<close>

definition createProxyApp ::
  "JSON \<Rightarrow> (Request \<Rightarrow> error + Response) \<Rightarrow> int \<Rightarrow> ProxyMetadata option
     \<Rightarrow> Request \<Rightarrow> error + Response" where
  "createProxyApp J fetch tp md r =
     (case upstreamReq tp md r of
        Inl e \<Rightarrow> Inl e
      | Inr u \<Rightarrow>
          (case fetch u of
             Inr resp \<Rightarrow> Inr resp
           | Inl err \<Rightarrow>
               Inr (c_json J
                     (JObj [(''error'', JStr ''Proxy error''),
                            (''message'', JStr (if instanceof_Error err then message err
                                                else ''Unknown error''))])
                     502)))"

text \<open>
  The router around the handler: an error that leaves the handler is answered by the
  router's error handler with status 500, and the application goes on.
\<close>

definition errorHandler :: "error \<Rightarrow> Response" where
  "errorHandler err =
     \<lparr> status = 500,
       res_headers = [''content-type'' \<mapsto> ''text/plain; charset=UTF-8''],
       res_body = ''Internal Server Error'' \<rparr>"

definition proxyApp_fetch ::
  "JSON \<Rightarrow> (Request \<Rightarrow> error + Response) \<Rightarrow> int \<Rightarrow> ProxyMetadata option
     \<Rightarrow> Request \<Rightarrow> Response" where
  "proxyApp_fetch J fetch tp md r =
     (case createProxyApp J fetch tp md r of
        Inl err \<Rightarrow> errorHandler err
      | Inr resp \<Rightarrow> resp)"

text \<open>
  The listening proxy: each incoming request goes through the application; \<open>upstream k\<close>
  is what \<open>fetch\<close> does while request number \<open>k\<close> is handled.
\<close>

fun ProxyManager_serve ::
  "JSON \<Rightarrow> (nat \<Rightarrow> Request \<Rightarrow> error + Response) \<Rightarrow> int \<Rightarrow> ProxyMetadata option
     \<Rightarrow> nat \<Rightarrow> Request list \<Rightarrow> Response list" where
  "ProxyManager_serve J upstream tp md k [] = []"
| "ProxyManager_serve J upstream tp md k (r # rs) =
     proxyApp_fetch J (upstream k) tp md r # ProxyManager_serve J upstream tp md (Suc k) rs"

section \<open>startMcpServer\<close>

record cliOptions =
  cli_help :: bool
  cli_mode :: mode
  cli_port :: int
  cli_local :: bool
  cli_killExisting :: bool

record ServerConfig =
  serverName :: string
  serverVersion :: string

text \<open>
  What \<open>startMcpServer\<close> calls outside itself: the optional hooks of its configuration,
  the two proxy starters, the port manager, the two server starters, and the clock.
\<close>

record 's ServerHost =
  onInitialize :: "('s \<Rightarrow> (error + unit) \<times> 's) option"
  startStdioProxy :: "StdioProxyConfig \<Rightarrow> 's \<Rightarrow> (error + unit) \<times> 's"
  proxyManager_start :: "ProxyStartOptions \<Rightarrow> 's \<Rightarrow> (error + unit) \<times> 's"
  onLocalStart :: "('s \<Rightarrow> (error + unit) \<times> 's) option"
  ensurePortAvailable :: "int \<Rightarrow> bool \<Rightarrow> 's \<Rightarrow> (error + bool) \<times> 's"
  onBeforeStart :: "('s \<Rightarrow> (error + unit) \<times> 's) option"
  startStdioServer :: "'s \<Rightarrow> (error + unit) \<times> 's"
  startHonoMcpServer :: "'s \<Rightarrow> (error + unit) \<times> 's"
  Date_now :: "'s \<Rightarrow> int"

datatype outcome = Returned | Exited int

definition hook :: "call \<Rightarrow> ('s \<Rightarrow> (error + unit) \<times> 's) option \<Rightarrow> ('s, unit) prog" where
  "hook c h = (case h of None \<Rightarrow> return () | Some f \<Rightarrow> invoke c f)"

definition console :: "call \<Rightarrow> ('s, unit) prog" where
  "console c = invoke c (\<lambda>s. (Inr (), s))"

definition template_string :: "string option \<Rightarrow> string" where
  "template_string v = (case v of Some x \<Rightarrow> x | None \<Rightarrow> ''undefined'')"

definition proxy_mode_message :: "string option \<Rightarrow> int \<Rightarrow> string \<Rightarrow> string" where
  "proxy_mode_message mainVer p kind =
     ''[PROXY MODE] Main instance v'' @ template_string mainVer @ '' running on port ''
       @ toString p @ ''. Starting '' @ kind @ '' proxy.''"

text \<open>The branch taken when \<open>tryBecomeMain\<close> returned \<open>false\<close>.\<close>

definition startProxyMode ::
  "ServerConfig \<Rightarrow> 's ServerHost \<Rightarrow> 's IInstanceManager \<Rightarrow> cliOptions \<Rightarrow> ('s, outcome) prog" where
  "startProxyMode cfg host im cli = (\<lambda>(s, tr).
     let mainVer = im_version im s in
     (if cli_mode cli = stdio then
        and_then (console (ConsoleError (proxy_mode_message mainVer (im_port im s) ''stdio''))) (\<lambda>_.
        let c = \<lparr> sp_port = im_port im s,
                  sp_serverName = Some (serverName cfg),
                  sp_serverVersion = Some (serverVersion cfg),
                  sp_clientName = Some (serverName cfg @ ''-proxy''),
                  sp_debug = Some True \<rparr>
        in and_then (invoke (StartStdioProxy c) (startStdioProxy host c)) (\<lambda>_. return Returned))
      else
        and_then (console (ConsoleLog (proxy_mode_message mainVer (im_port im s) ''HTTP''))) (\<lambda>_.
        let opts = \<lparr> targetPort = im_port im s,
                     listenPort = Some (cli_port cli),
                     metadata = Some \<lparr> mainVersion = mainVer,
                                       mainPort = Some (im_port im s),
                                       instanceId = None,
                                       startTime = Some (Date_now host s) \<rparr> \<rparr>
        in and_then (invoke (ProxyManagerStart opts) (proxyManager_start host opts))
             (\<lambda>_. return Returned))) (s, tr))"

text \<open>The branch taken when this process is the main instance.\<close>

definition startMainMode ::
  "ServerConfig \<Rightarrow> 's ServerHost \<Rightarrow> cliOptions \<Rightarrow> ('s, outcome) prog" where
  "startMainMode cfg host cli =
     and_then (console (ConsoleLog
       (''[MAIN INSTANCE] Starting '' @ serverName cfg @ '' v'' @ serverVersion cfg))) (\<lambda>_.
     and_then (if cli_local cli then hook OnLocalStart (onLocalStart host) else return ()) (\<lambda>_.
     and_then (invoke (EnsurePortAvailable (cli_port cli) (cli_killExisting cli))
                 (ensurePortAvailable host (cli_port cli) (cli_killExisting cli))) (\<lambda>portFree.
       if \<not> portFree then
         (if \<not> cli_killExisting cli then
            throw (Error (''Port '' @ toString (cli_port cli)
              @ '' is already in use and --no-kill was provided (start aborted).''))
          else
            throw (Error (''Unable to free port '' @ toString (cli_port cli) @ '' for ''
              @ serverName cfg @ '' server'')))
       else
         and_then (hook OnBeforeStart (onBeforeStart host)) (\<lambda>_.
         and_then (if cli_mode cli = stdio
                   then invoke StartStdioServer (startStdioServer host)
                   else invoke StartHonoMcpServer (startHonoMcpServer host)) (\<lambda>_.
         return Returned)))))"

text \<open>
  \<open>startMcpServer\<close>, from the parsed command line on.  \<open>im\<close> is the instance manager the
  function has created (the configured factory's, or a default \<open>InstanceManager\<close> whose
  version getter returns \<open>serverVersion\<close>).
\<close>

definition startMcpServer ::
  "ServerConfig \<Rightarrow> 's ServerHost \<Rightarrow> 's IInstanceManager \<Rightarrow> cliOptions \<Rightarrow> ('s, outcome) prog" where
  "startMcpServer cfg host im cli =
     (if cli_help cli then
        and_then (console DisplayHelp) (\<lambda>_. return (Exited 0))
      else
        and_then (hook OnInitialize (onInitialize host)) (\<lambda>_.
        and_then (invoke TryBecomeMain (im_tryBecomeMain im)) (\<lambda>shouldBeMain.
          if \<not> shouldBeMain then startProxyMode cfg host im cli
          else startMainMode cfg host cli)))"

section \<open>Racing callers of tryBecomeMain\<close>

text \<open>
  Several processes, or several managers in one process, share the host.  Between
  processes the unit of interleaving is the system call, so a call of \<open>tryBecomeMain\<close>
  is cut at its three calls: the exclusive open, the write, the close.  \<open>rc_phase\<close> says
  how far a caller has come; \<open>Finished\<close> holds what \<open>tryBecomeMain\<close> returned or threw.
\<close>

datatype phase =
    NotStarted
  | Opened string
  | Written string InstanceLock
  | Finished "error + bool"

record caller =
  rc_pid :: int
  rc_manager :: InstanceManager
  rc_phase :: phase

definition tryBecomeMain_step :: "JSON \<Rightarrow> caller \<Rightarrow> world \<Rightarrow> caller \<times> world" where
  "tryBecomeMain_step J c w =
     (case rc_phase c of
        NotStarted \<Rightarrow>
          (case openSync_wx (lockPath (rc_manager c)) w of
             Inl e \<Rightarrow> (c\<lparr>rc_phase := Finished (tryBecomeMain_catch e)\<rparr>, w)
           | Inr (fd, w1) \<Rightarrow> (c\<lparr>rc_phase := Opened fd\<rparr>, w1))
      | Opened fd \<Rightarrow>
          (let l = \<lparr> pid = rc_pid c, version = getVersion (rc_manager c), timestamp = clock w \<rparr> in
           case writeFileSync_fd fd (stringify J (lock_json l)) w of
             Inl e \<Rightarrow> (c\<lparr>rc_phase := Finished (tryBecomeMain_catch e)\<rparr>, w)
           | Inr w2 \<Rightarrow> (c\<lparr>rc_phase := Written fd l\<rparr>, w2))
      | Written fd l \<Rightarrow>
          (case closeSync fd w of
             Inl e \<Rightarrow> (c\<lparr>rc_phase := Finished (tryBecomeMain_catch e)\<rparr>, w)
           | Inr w3 \<Rightarrow>
               (c\<lparr>rc_manager := (rc_manager c)\<lparr>lock := Some l, role := MAIN\<rparr>,
                  rc_phase := Finished (Inr True)\<rparr>, w3))
      | Finished r \<Rightarrow> (c, w))"

text \<open>
  An event is either the next system call of caller number \<open>i\<close>, or anything else that
  happens to the host (\<open>Env\<close>): another program, \<open>writeLock\<close>, \<open>removeLock\<close>, the clock.
\<close>

datatype event = Step nat | Env "world \<Rightarrow> world"

fun exec_event :: "JSON \<Rightarrow> event \<Rightarrow> caller list \<times> world \<Rightarrow> caller list \<times> world" where
  "exec_event J (Step i) (cs, w) =
     (if i < length cs
      then (case tryBecomeMain_step J (cs ! i) w of (c', w') \<Rightarrow> (cs[i := c'], w'))
      else (cs, w))"
| "exec_event J (Env f) (cs, w) = (cs, f w)"

fun run :: "JSON \<Rightarrow> event list \<Rightarrow> caller list \<times> world \<Rightarrow> caller list \<times> world" where
  "run J [] st = st"
| "run J (e # es) st = run J es (exec_event J e st)"

text \<open>An event that does not take away what is at path \<open>p\<close>: no \<open>removeLock\<close> of it.\<close>

fun keeps :: "string \<Rightarrow> event \<Rightarrow> bool" where
  "keeps p (Step i) = True"
| "keeps p (Env f) = (\<forall>w. files w p \<noteq> None \<longrightarrow> files (f w) p \<noteq> None)"

definition returned_true :: "caller \<Rightarrow> bool" where
  "returned_true c = (rc_phase c = Finished (Inr True))"

definition fresh_caller :: "string \<Rightarrow> caller \<Rightarrow> bool" where
  "fresh_caller p c = (lockPath (rc_manager c) = p \<and> rc_phase c = NotStarted)"

section \<open>Notions used in the statements\<close>

text \<open>
  The states of the lock file from which no record can be read: nothing at the path, a
  directory, or a file whose text does not parse (the empty text among them) or parses
  to a value without a number \<open>pid\<close>, a string \<open>version\<close> and a number \<open>timestamp\<close>.
\<close>

definition field_typeof :: "json \<Rightarrow> string \<Rightarrow> string option" where
  "field_typeof j k = (case get_prop j k of Inl _ \<Rightarrow> None | Inr v \<Rightarrow> Some (typeof v))"

definition well_typed_record :: "json \<Rightarrow> bool" where
  "well_typed_record j =
     (field_typeof j ''pid'' = Some ''number'' \<and> field_typeof j ''version'' = Some ''string''
      \<and> field_typeof j ''timestamp'' = Some ''number'')"

definition unusable_lock_file :: "JSON \<Rightarrow> string \<Rightarrow> world \<Rightarrow> bool" where
  "unusable_lock_file J p w =
     (case files w p of
        None \<Rightarrow> True
      | Some Dir \<Rightarrow> True
      | Some (File raw) \<Rightarrow>
          (case parse J raw of None \<Rightarrow> True | Some j \<Rightarrow> \<not> well_typed_record j))"

text \<open>
  Staleness as the coordinator decides it, and the probe it makes for that: none when
  no record was read.
\<close>

definition lock_is_stale :: "(int \<Rightarrow> bool) \<Rightarrow> InstanceLock option \<Rightarrow> bool" where
  "lock_is_stale kill0 l = (case l of None \<Rightarrow> True | Some r \<Rightarrow> \<not> isPidAlive kill0 (pid r))"

definition probe_calls :: "InstanceLock option \<Rightarrow> call list" where
  "probe_calls l = (case l of None \<Rightarrow> [] | Some r \<Rightarrow> [IsPidAlive (pid r)])"

text \<open>
  The calls of the election protocol that \<open>startMcpServer\<close> could make after a failed
  \<open>tryBecomeMain\<close>, and the two calls it does make in each mode.
\<close>

definition election_call :: "call \<Rightarrow> bool" where
  "election_call c =
     (case c of
        ReadLock \<Rightarrow> True | IsPidAlive _ \<Rightarrow> True | FetchMainVersion \<Rightarrow> True
      | RequestMainTransition \<Rightarrow> True | RemoveLock \<Rightarrow> True | WaitForPort _ \<Rightarrow> True
      | TryBecomeMain \<Rightarrow> True | _ \<Rightarrow> False)"

definition stdio_proxy_calls :: "ServerConfig \<Rightarrow> 's IInstanceManager \<Rightarrow> 's \<Rightarrow> call list" where
  "stdio_proxy_calls cfg im s =
     [ConsoleError (proxy_mode_message (im_version im s) (im_port im s) ''stdio''),
      StartStdioProxy \<lparr> sp_port = im_port im s,
                        sp_serverName = Some (serverName cfg),
                        sp_serverVersion = Some (serverVersion cfg),
                        sp_clientName = Some (serverName cfg @ ''-proxy''),
                        sp_debug = Some True \<rparr>]"

definition http_proxy_calls ::
  "'s ServerHost \<Rightarrow> 's IInstanceManager \<Rightarrow> cliOptions \<Rightarrow> 's \<Rightarrow> call list" where
  "http_proxy_calls host im cli s =
     [ConsoleLog (proxy_mode_message (im_version im s) (im_port im s) ''HTTP''),
      ProxyManagerStart \<lparr> targetPort = im_port im s,
                          listenPort = Some (cli_port cli),
                          metadata = Some \<lparr> mainVersion = im_version im s,
                                            mainPort = Some (im_port im s),
                                            instanceId = None,
                                            startTime = Some (Date_now host s) \<rparr> \<rparr>]"

text \<open>
  A caller holds the lock from the moment its exclusive open has succeeded.  The
  invariant of a race on path \<open>p\<close>: every caller uses \<open>p\<close>, at most one caller holds the
  lock, and while one does, something is at \<open>p\<close>.
\<close>

definition holds_lock :: "caller \<Rightarrow> bool" where
  "holds_lock c =
     (case rc_phase c of
        NotStarted \<Rightarrow> False
      | Opened _ \<Rightarrow> True
      | Written _ _ \<Rightarrow> True
      | Finished r \<Rightarrow> r = Inr True)"

definition race_inv :: "string \<Rightarrow> caller list \<times> world \<Rightarrow> bool" where
  "race_inv p = (\<lambda>(cs, w).
     (\<forall>i<length cs. lockPath (rc_manager (cs ! i)) = p)
     \<and> (\<forall>i<length cs. \<forall>j<length cs. holds_lock (cs ! i) \<and> holds_lock (cs ! j) \<longrightarrow> i = j)
     \<and> ((\<exists>i<length cs. holds_lock (cs ! i)) \<longrightarrow> files w p \<noteq> None))"

definition locked_out :: "string \<Rightarrow> caller list \<times> world \<Rightarrow> bool" where
  "locked_out p = (\<lambda>(cs, w).
     (\<forall>i<length cs. lockPath (rc_manager (cs ! i)) = p \<and> \<not> holds_lock (cs ! i))
     \<and> files w p \<noteq> None)"

section \<open>Concrete hosts and managers\<close>

text \<open>
  A host with the given files on which no system call fails for an outside reason, no
  process but number 4242 is alive, the clock reads 1000, and readings of the clock
  follow each other without delay.
\<close>

definition quiet_world :: "(string \<rightharpoonup> node) \<Rightarrow> (int \<Rightarrow> int \<Rightarrow> bool) \<Rightarrow> world" where
  "quiet_world fs busy =
     \<lparr> files = fs,
       open_fault = (\<lambda>_. None),
       write_fault = None,
       close_fault = None,
       read_fault = (\<lambda>_. None),
       unlink_fault = (\<lambda>_. None),
       alive = (\<lambda>p. p = 4242),
       clock = 1000,
       lapse = (\<lambda>_. 0),
       port_busy = busy \<rparr>"

definition commas :: "string list \<Rightarrow> string" where
  "commas xs = (case xs of [] \<Rightarrow> [] | x # rest \<Rightarrow> x @ concat (map (\<lambda>y. '','' @ y) rest))"

text \<open>Compact JSON text of a value (strings that need no escaping).\<close>

fun render :: "json \<Rightarrow> string" where
  "render JNull = ''null''"
| "render (JBool b) = (if b then ''true'' else ''false'')"
| "render (JNum i) = toString i"
| "render (JStr s) = [CHR 0x22] @ s @ [CHR 0x22]"
| "render (JArr xs) = ''['' @ commas (map render xs) @ '']''"
| "render (JObj kvs) =
     ''{'' @ commas (map (\<lambda>(k, v). [CHR 0x22] @ k @ [CHR 0x22] @ '':'' @ render v) kvs) @ ''}''"

definition stale_record :: InstanceLock where
  "stale_record = \<lparr> pid = 999999, version = ''x'', timestamp = 0 \<rparr>"

definition live_record :: InstanceLock where
  "live_record = \<lparr> pid = 4242, version = ''0.0.1'', timestamp = 0 \<rparr>"

text \<open>
  \<open>JSON\<close> on the texts used below: the two records parse to themselves, \<open>null\<close> parses to
  \<open>null\<close>, and \<open>not-json\<close> and the empty text are syntax errors.
\<close>

definition example_JSON :: JSON where
  "example_JSON =
     \<lparr> parse = (\<lambda>s. if s = render (lock_json stale_record) then Some (lock_json stale_record)
                     else if s = render (lock_json live_record) then Some (lock_json live_record)
                     else if s = ''null'' then Some JNull
                     else None),
       stringify = render \<rparr>"

definition example_manager :: InstanceManager where
  "example_manager =
     new_InstanceManager ''/tmp''
       \<lparr> opt_lockPath = None, opt_port = Some 3000, opt_getVersion = Some ''2.0.0'' \<rparr>"

definition example_lockPath :: string where
  "example_lockPath = ''/tmp/mcp-kit-8989.lock''"

definition example_request :: Request where
  "example_request =
     \<lparr> req_method = ''GET'',
       req_url = \<lparr> origin = ''http://127.0.0.1:40001'', pathname = ''/search'', search = ''?q=1'' \<rparr>,
       req_headers = [''accept'' \<mapsto> ''*/*''],
       req_body = [] \<rparr>"

text \<open>An upstream that refuses every connection.\<close>

definition dead_upstream :: "Request \<Rightarrow> error + Response" where
  "dead_upstream r = Inl (TypeError ''fetch failed'')"

definition never_busy :: "int \<Rightarrow> int \<Rightarrow> bool" where
  "never_busy t p = False"

definition always_busy :: "int \<Rightarrow> int \<Rightarrow> bool" where
  "always_busy t p = True"

definition empty_world :: world where
  "empty_world = quiet_world Map.empty never_busy"

definition held_world :: world where
  "held_world =
     quiet_world [example_lockPath \<mapsto> File (render (lock_json live_record))] never_busy"

definition stale_world :: world where
  "stale_world =
     quiet_world [example_lockPath \<mapsto> File (render (lock_json stale_record))] never_busy"

definition corrupt_world :: world where
  "corrupt_world = quiet_world [example_lockPath \<mapsto> File ''not-json''] never_busy"

definition null_world :: world where
  "null_world = quiet_world [example_lockPath \<mapsto> File ''null''] never_busy"

definition directory_world :: world where
  "directory_world = quiet_world [example_lockPath \<mapsto> Dir] never_busy"

definition readonly_world :: world where
  "readonly_world = empty_world\<lparr>open_fault := (\<lambda>_. Some EACCES)\<rparr>"

definition unreachable_main :: control_plane where
  "unreachable_main = \<lparr> version_reply = None, transition_reply = True \<rparr>"

definition example_options :: CoordinateInstanceOptions where
  "example_options =
     \<lparr> desiredVersion = Some ''2.0.0'', waitForPortTimeoutMs = Some 3000, removeStaleLock = None \<rparr>"

definition kill0_of :: "inst \<Rightarrow> int \<Rightarrow> bool" where
  "kill0_of = (\<lambda>(m, w). alive w)"

definition example_impl :: "inst IInstanceManager" where
  "example_impl = InstanceManager_impl example_JSON 777 unreachable_main"

definition example_host :: "inst ServerHost" where
  "example_host =
     \<lparr> onInitialize = None,
       startStdioProxy = (\<lambda>c s. (Inr (), s)),
       proxyManager_start = (\<lambda>opts s. (Inr (), s)),
       onLocalStart = None,
       ensurePortAvailable = (\<lambda>p k s. (Inr True, s)),
       onBeforeStart = None,
       startStdioServer = (\<lambda>s. (Inr (), s)),
       startHonoMcpServer = (\<lambda>s. (Inr (), s)),
       Date_now = (\<lambda>(m, w). clock w) \<rparr>"

definition example_config :: ServerConfig where
  "example_config = \<lparr> serverName = ''demo'', serverVersion = ''2.0.0'' \<rparr>"

definition example_cli :: cliOptions where
  "example_cli =
     \<lparr> cli_help = False, cli_mode = http, cli_port = 3000, cli_local = False,
       cli_killExisting = True \<rparr>"

text \<open>An upstream that answers every request with the same page.\<close>

definition live_upstream :: "Request \<Rightarrow> error + Response" where
  "live_upstream r = Inr \<lparr> status = 200, res_headers = Map.empty, res_body = ''from-main'' \<rparr>"

text \<open>The main instance is out of reach while the second request is handled.\<close>

definition flaky_upstream :: "nat \<Rightarrow> Request \<Rightarrow> error + Response" where
  "flaky_upstream k = (if k = 1 then dead_upstream else live_upstream)"

definition trace_request :: Request where
  "trace_request = example_request\<lparr>req_method := ''TRACE''\<rparr>"

text \<open>A host on which a millisecond passes between two readings of the clock.\<close>

definition slow_clock_world :: world where
  "slow_clock_world = (quiet_world Map.empty always_busy)\<lparr>lapse := (\<lambda>_. 1)\<rparr>"

text \<open>Three callers race; the second one to move is first at the open.\<close>

definition example_caller :: "int \<Rightarrow> caller" where
  "example_caller n = \<lparr> rc_pid = n, rc_manager = example_manager, rc_phase = NotStarted \<rparr>"

definition tick :: "world \<Rightarrow> world" where
  "tick w = w\<lparr>clock := clock w + 1\<rparr>"

definition example_race :: "event list" where
  "example_race = [Step 1, Step 0, Env tick, Step 1, Step 2, Step 0, Step 1, Step 2]"

section \<open>The lock store\<close>

lemma errno_of_io_not_EEXIST: "errno_of_io e \<noteq> EEXIST"
  by (cases e) simp_all

lemma tryBecomeMain_catch_False_iff:
  "tryBecomeMain_catch err = Inr False \<longleftrightarrow> err = SystemError EEXIST"
  by (cases err) (auto simp: tryBecomeMain_catch_def)

lemma tryBecomeMain_catch_rethrow:
  "code err \<noteq> Some EEXIST \<Longrightarrow> tryBecomeMain_catch err = Inl err"
  by (simp add: tryBecomeMain_catch_def)

lemma tryBecomeMain_false_iff:
  "fst (tryBecomeMain J self (m, w)) = Inr False
     \<longleftrightarrow> openSync_wx (lockPath m) w = Inl (SystemError EEXIST)"
  by (auto simp: tryBecomeMain_def tryBecomeMain_try_def writeFileSync_fd_def closeSync_def
      Let_def errno_of_io_not_EEXIST tryBecomeMain_catch_False_iff
      split: sum.splits option.splits prod.splits)

lemma openSync_wx_occupied:
  "open_fault w p = None \<Longrightarrow> files w p \<noteq> None \<Longrightarrow> openSync_wx p w = Inl (SystemError EEXIST)"
  by (auto simp: openSync_wx_def)

lemma tryBecomeMain_rethrows:
  "tryBecomeMain_try J self (m, w) = (Inl err, s') \<Longrightarrow> code err \<noteq> Some EEXIST
   \<Longrightarrow> tryBecomeMain J self (m, w) = (Inl err, s')"
  by (simp add: tryBecomeMain_def tryBecomeMain_catch_rethrow)

text \<open>
  C4, as the claim states it, fails: with a directory at the lock path the exclusive
  open fails with \<open>EEXIST\<close>, so \<open>tryBecomeMain\<close> returns \<open>false\<close> and throws nothing (the
  repository's test "directory instead of file" expects exactly this \<open>false\<close>).
\<close>

theorem tryBecomeMain_directory_counterexample:
  "files directory_world (lockPath example_manager) = Some Dir
   \<and> fst (tryBecomeMain example_JSON 777 (example_manager, directory_world)) = Inr False"
  by (simp add: directory_world_def quiet_world_def example_manager_def new_InstanceManager_def path_join_def example_lockPath_def tryBecomeMain_def tryBecomeMain_try_def tryBecomeMain_catch_def openSync_wx_def writeFileSync_fd_def closeSync_def Let_def)

text \<open>
  C4, amended: \<open>tryBecomeMain\<close> returns \<open>false\<close> exactly when the exclusive-create open
  fails with \<open>EEXIST\<close>; that is the failure of the open whenever something, a file or a
  directory, is at the lock path; and every failure of the \<open>try\<close> block with another
  code (permissions, I/O errors) is thrown on unchanged.
\<close>

theorem tryBecomeMain_false_iff_EEXIST:
  "(fst (tryBecomeMain J self (m, w)) = Inr False
      \<longleftrightarrow> openSync_wx (lockPath m) w = Inl (SystemError EEXIST))
   \<and> (open_fault w (lockPath m) = None \<and> files w (lockPath m) \<noteq> None
      \<longrightarrow> openSync_wx (lockPath m) w = Inl (SystemError EEXIST))
   \<and> (\<forall>err s'. tryBecomeMain_try J self (m, w) = (Inl err, s') \<and> code err \<noteq> Some EEXIST
      \<longrightarrow> tryBecomeMain J self (m, w) = (Inl err, s'))"
  using tryBecomeMain_false_iff [of J self m w] openSync_wx_occupied [of w "lockPath m"]
    tryBecomeMain_rethrows [of J self m w]
  by blast

theorem tryBecomeMain_false_iff_EEXIST_witness:
  "fst (tryBecomeMain example_JSON 777 (example_manager, directory_world)) = Inr False
   \<and> tryBecomeMain example_JSON 777 (example_manager, readonly_world)
       = (Inl (SystemError EACCES), (example_manager, readonly_world))"
proof -
  have d: "open_fault directory_world (lockPath example_manager) = None
           \<and> files directory_world (lockPath example_manager) \<noteq> None"
    by (simp add: directory_world_def quiet_world_def example_manager_def new_InstanceManager_def path_join_def example_lockPath_def)
  have r: "tryBecomeMain_try example_JSON 777 (example_manager, readonly_world)
             = (Inl (SystemError EACCES), (example_manager, readonly_world))
           \<and> code (SystemError EACCES) \<noteq> Some EEXIST"
    by (simp add: readonly_world_def empty_world_def quiet_world_def example_manager_def new_InstanceManager_def path_join_def example_lockPath_def tryBecomeMain_def tryBecomeMain_try_def tryBecomeMain_catch_def openSync_wx_def writeFileSync_fd_def closeSync_def Let_def)
  from d r
    tryBecomeMain_false_iff_EEXIST [of example_JSON 777 example_manager directory_world]
    tryBecomeMain_false_iff_EEXIST [of example_JSON 777 example_manager readonly_world]
  show ?thesis by blast
qed

lemma readFileSync_Inr: "readFileSync p w = Inr raw \<Longrightarrow> files w p = Some (File raw)"
  by (auto simp: readFileSync_def split: option.splits node.splits)

lemma readLock_try_ill_typed:
  assumes "readFileSync (lockPath m) w = Inr raw" "parse J raw = Some j" "\<not> well_typed_record j"
  shows "fst (readLock_try J (m, w)) \<noteq> Inr (Some l)"
  using assms
  by (auto simp: readLock_try_def well_typed_record_def field_typeof_def Let_def
       split: sum.splits option.splits jsval.splits json.splits)

lemma readLock_ill_typed:
  assumes "files w (lockPath m) = Some (File raw)" "parse J raw = Some j" "\<not> well_typed_record j"
  shows "fst (readLock J (m, w)) = Inr None"
proof (cases "readFileSync (lockPath m) w")
  case (Inl e)
  then show ?thesis
    by (simp add: readLock_def readLock_try_def)
next
  case (Inr raw')
  with assms(1) have "raw' = raw" by (auto dest: readFileSync_Inr)
  with Inr assms have "\<forall>l. fst (readLock_try J (m, w)) \<noteq> Inr (Some l)"
    by (auto dest: readLock_try_ill_typed)
  then show ?thesis
    by (cases "readLock_try J (m, w)") (auto simp: readLock_def split: sum.splits)
qed

lemma readLock_unparsed:
  assumes "files w (lockPath m) = Some n" "n = Dir \<or> (\<exists>raw. n = File raw \<and> parse J raw = None)"
  shows "fst (readLock J (m, w)) = Inr None"
  using assms
  by (auto simp: readLock_def readLock_try_def readFileSync_def existsSync_def
      split: option.splits sum.splits prod.splits)

text \<open>
  C5: whatever is at the lock path, \<open>readLock\<close> does not throw; and from every state
  that holds no well-formed record (absent, empty, not JSON, a field missing or of the
  wrong type) it returns \<open>null\<close>.
\<close>

theorem readLock_null_never_throws:
  "(\<forall>e. fst (readLock J (m, w)) \<noteq> Inl e)
   \<and> (unusable_lock_file J (lockPath m) w \<longrightarrow> fst (readLock J (m, w)) = Inr None)"
proof (intro conjI allI impI)
  fix e show "fst (readLock J (m, w)) \<noteq> Inl e"
    by (auto simp: readLock_def split: sum.splits prod.splits)
next
  assume u: "unusable_lock_file J (lockPath m) w"
  show "fst (readLock J (m, w)) = Inr None"
  proof (cases "files w (lockPath m)")
    case None
    then show ?thesis by (simp add: readLock_def existsSync_def)
  next
    case (Some n)
    show ?thesis
    proof (cases "n = Dir \<or> (\<exists>raw. n = File raw \<and> parse J raw = None)")
      case True
      with Some show ?thesis by (rule readLock_unparsed)
    next
      case False
      then obtain raw j where n: "n = File raw" and j: "parse J raw = Some j"
        by (cases n) auto
      with u Some have "\<not> well_typed_record j"
        by (simp add: unusable_lock_file_def)
      with Some n j show ?thesis
        by (simp add: readLock_ill_typed)
    qed
  qed
qed

theorem readLock_null_never_throws_witness:
  "fst (readLock example_JSON (example_manager, empty_world)) = Inr None
   \<and> fst (readLock example_JSON (example_manager, corrupt_world)) = Inr None
   \<and> fst (readLock example_JSON (example_manager, null_world)) = Inr None
   \<and> fst (readLock example_JSON
            (example_manager, quiet_world [example_lockPath \<mapsto> File []] never_busy)) = Inr None"
proof -
  have "unusable_lock_file example_JSON (lockPath example_manager) empty_world"
    and "unusable_lock_file example_JSON (lockPath example_manager) corrupt_world"
    and "unusable_lock_file example_JSON (lockPath example_manager) null_world"
    and "unusable_lock_file example_JSON (lockPath example_manager)
           (quiet_world [example_lockPath \<mapsto> File []] never_busy)"
    by (simp_all add: unusable_lock_file_def well_typed_record_def field_typeof_def
        empty_world_def corrupt_world_def null_world_def quiet_world_def example_manager_def new_InstanceManager_def path_join_def example_lockPath_def example_JSON_def stale_record_def live_record_def lock_json_def toString_def digits.simps digit_def commas_def)
  with readLock_null_never_throws [of example_JSON example_manager empty_world]
    readLock_null_never_throws [of example_JSON example_manager corrupt_world]
    readLock_null_never_throws [of example_JSON example_manager null_world]
    readLock_null_never_throws [of example_JSON example_manager
      "quiet_world [example_lockPath \<mapsto> File []] never_busy"]
  show ?thesis by blast
qed

text \<open>
  C6: the default lock path does not follow the port.  A manager made for port 3000
  without a lock path gets \<open>/tmp/mcp-kit-8989.lock\<close>, where the documented default is
  \<open>/tmp/mcp-kit-3000.lock\<close>.
\<close>

theorem default_lockPath_ignores_port:
  "lockPath (new_InstanceManager ''/tmp''
      \<lparr> opt_lockPath = None, opt_port = Some 3000, opt_getVersion = None \<rparr>)
     = ''/tmp/mcp-kit-8989.lock''
   \<and> documented_default_lockPath ''/tmp'' 3000 = ''/tmp/mcp-kit-3000.lock''
   \<and> port (new_InstanceManager ''/tmp''
      \<lparr> opt_lockPath = None, opt_port = Some 3000, opt_getVersion = None \<rparr>) = 3000"
  by (simp add: new_InstanceManager_def path_join_def documented_default_lockPath_def
      toString_def digits.simps digit_def)

lemma default_lockPath_constant:
  "lockPath (new_InstanceManager tmp (opts\<lparr>opt_lockPath := None\<rparr>))
     = path_join tmp ''mcp-kit-8989.lock''"
  by (simp add: new_InstanceManager_def)

section \<open>Waiting for the port\<close>

lemma waitForPort_late_reading:
  "timeout \<le> int (lapse w (clock w)) \<Longrightarrow>
   waitForPort (Some timeout) (m, w) = (Inr False, (m, w\<lparr>clock := clock w + int (lapse w (clock w))\<rparr>))"
  by (simp add: waitForPort_def waitForPort_loop.simps Let_def)

text \<open>
  C9, as the claim states it, fails in its second half: with timeout 0 and the port
  free, \<open>waitForPort\<close> returns \<open>false\<close>.
\<close>

theorem waitForPort_zero_free_counterexample:
  "\<not> port_busy empty_world (clock empty_world) (port example_manager)
   \<and> fst (waitForPort (Some 0) (example_manager, empty_world)) = Inr False"
  by (simp add: empty_world_def quiet_world_def never_busy_def example_manager_def new_InstanceManager_def path_join_def example_lockPath_def
      waitForPort_def waitForPort_loop.simps Let_def)

text \<open>
  C9, amended: with timeout 0, \<open>waitForPort\<close> returns \<open>false\<close> at once, whether the
  target port is held or free: whatever the host, the result is \<open>false\<close>, no bind is
  attempted (the answer does not depend on \<open>port_busy\<close>), no timer runs, and the clock
  stands at the reading of the loop condition.
\<close>

theorem waitForPort_zero_false:
  "waitForPort (Some 0) (m, w)
     = (Inr False, (m, w\<lparr>clock := clock w + int (lapse w (clock w))\<rparr>))"
  by (simp add: waitForPort_def waitForPort_loop.simps Let_def)

theorem waitForPort_zero_false_witness:
  "fst (waitForPort (Some 0) (example_manager, empty_world)) = Inr False
   \<and> fst (waitForPort (Some 0) (example_manager, slow_clock_world)) = Inr False
   \<and> clock (snd (snd (waitForPort (Some 0) (example_manager, slow_clock_world)))) = 1001"
  using waitForPort_zero_false [of example_manager empty_world]
    waitForPort_zero_false [of example_manager slow_clock_world]
  by (simp add: slow_clock_world_def quiet_world_def)

section \<open>The coordinator's paths\<close>

lemma isLockStale_apply:
  "isLockStale kill0 l (s, tr) = (Inr (lock_is_stale (kill0 s) l), (s, tr @ probe_calls l))"
  by (cases l) (simp_all add: isLockStale_def lock_is_stale_def probe_calls_def return_def invoke_def)

lemma versionPhase_transition:
  assumes fv: "im_fetchMainVersion im s2 = (Inr mv, s3)"
      and ne: "mv \<noteq> Some desired"
      and rt: "im_requestMainTransition im s3 = (Inr t, s4)"
      and wp: "im_waitForPort im (Some (waitForPortTimeoutMs_of opts)) s4 = (Inr b, s5)"
      and rl: "im_removeLock im s5 = (Inr (), s6)"
      and tb: "im_tryBecomeMain im s6 = (Inr ok, s7)"
  shows "versionPhase im opts desired (s2, tr) =
     (if \<not> t then
        (Inl (Error ''Failed to transition existing main instance to proxy mode.''),
         (s4, tr @ [FetchMainVersion, RequestMainTransition]))
      else if ok then
        (Inr (MainResult version_transition (Some mv)),
         (s7, tr @ [FetchMainVersion, RequestMainTransition,
                    WaitForPort (Some (waitForPortTimeoutMs_of opts)), RemoveLock, TryBecomeMain]))
      else
        (Inl (Error ''Failed to assume main role after successful transition request.''),
         (s7, tr @ [FetchMainVersion, RequestMainTransition,
                    WaitForPort (Some (waitForPortTimeoutMs_of opts)), RemoveLock, TryBecomeMain])))"
  using assms
  by (simp add: versionPhase_def and_then_def invoke_def return_def throw_def)

lemma coordinate_falls_to_versionPhase:
  assumes "im_tryBecomeMain im s0 = (Inr False, s1)"
      and "staleLockPhase im kill0 opts (s1, [TryBecomeMain]) = (Inr None, (s2, tr))"
  shows "coordinateInstanceRole im kill0 opts (s0, []) =
           versionPhase im opts (desiredVersion_of opts im s0) (s2, tr)"
  using assms by (simp add: coordinateInstanceRole_def and_then_def invoke_def return_def throw_def Let_def)

text \<open>
  C2: the first \<open>tryBecomeMain\<close> returned \<open>false\<close>, the stale-lock block fell through
  (it was skipped, or found a live holder, or its retry failed), and the fetched
  version \<open>mv\<close>, a string or \<open>null\<close>, is not the desired one.  Then the coordinator
  requests the transition; refused, it throws the first error with nothing further
  called; granted, it calls \<open>waitForPort\<close>, \<open>removeLock\<close> and \<open>tryBecomeMain\<close> in that
  order, and returns main, reason \<open>version-transition\<close>, \<open>previousVersion = mv\<close> when
  that last call succeeds, or throws the second error when it fails.
\<close>

theorem coordinate_version_transition:
  assumes t0: "im_tryBecomeMain im s0 = (Inr False, s1)"
      and st: "staleLockPhase im kill0 opts (s1, [TryBecomeMain]) = (Inr None, (s2, tr))"
      and fv: "im_fetchMainVersion im s2 = (Inr mv, s3)"
      and ne: "mv = None \<or> mv \<noteq> Some (desiredVersion_of opts im s0)"
      and rt: "im_requestMainTransition im s3 = (Inr t, s4)"
      and wp: "im_waitForPort im (Some (waitForPortTimeoutMs_of opts)) s4 = (Inr b, s5)"
      and rl: "im_removeLock im s5 = (Inr (), s6)"
      and tb: "im_tryBecomeMain im s6 = (Inr ok, s7)"
  shows "coordinateInstanceRole im kill0 opts (s0, []) =
     (if \<not> t then
        (Inl (Error ''Failed to transition existing main instance to proxy mode.''),
         (s4, tr @ [FetchMainVersion, RequestMainTransition]))
      else if ok then
        (Inr (MainResult version_transition (Some mv)),
         (s7, tr @ [FetchMainVersion, RequestMainTransition,
                    WaitForPort (Some (waitForPortTimeoutMs_of opts)), RemoveLock, TryBecomeMain]))
      else
        (Inl (Error ''Failed to assume main role after successful transition request.''),
         (s7, tr @ [FetchMainVersion, RequestMainTransition,
                    WaitForPort (Some (waitForPortTimeoutMs_of opts)), RemoveLock, TryBecomeMain])))"
proof -
  from ne have "mv \<noteq> Some (desiredVersion_of opts im s0)" by auto
  from versionPhase_transition [OF fv this rt wp rl tb]
    coordinate_falls_to_versionPhase [OF t0 st]
  show ?thesis by simp
qed

theorem coordinate_version_transition_witness:
  "fst (coordinateInstanceRole example_impl kill0_of example_options
          ((example_manager, held_world), []))
     = Inr (MainResult version_transition (Some None))
   \<and> snd (snd (coordinateInstanceRole example_impl kill0_of example_options
          ((example_manager, held_world), [])))
     = [TryBecomeMain, ReadLock, IsPidAlive 4242, FetchMainVersion, RequestMainTransition,
        WaitForPort (Some 3000), RemoveLock, TryBecomeMain]"
proof -
  let ?s0 = "(example_manager, held_world)"
  let ?s2 = "(example_manager\<lparr>lock := Some live_record\<rparr>, held_world)"
  let ?s5 = "snd (im_waitForPort example_impl (Some (waitForPortTimeoutMs_of example_options)) ?s2)"
  let ?s6 = "snd (im_removeLock example_impl ?s5)"
  let ?s7 = "snd (im_tryBecomeMain example_impl ?s6)"
  have t0: "im_tryBecomeMain example_impl ?s0 = (Inr False, ?s0)"
    by (simp add: held_world_def quiet_world_def example_manager_def new_InstanceManager_def path_join_def example_lockPath_def example_impl_def InstanceManager_impl_def unreachable_main_def tryBecomeMain_def tryBecomeMain_try_def tryBecomeMain_catch_def openSync_wx_def writeFileSync_fd_def closeSync_def Let_def)
  have st: "staleLockPhase example_impl kill0_of example_options (?s0, [TryBecomeMain])
              = (Inr None, (?s2, [TryBecomeMain, ReadLock, IsPidAlive 4242]))"
    by (simp add: staleLockPhase_def isLockStale_def removeStaleLock_of_def example_options_def
        and_then_def invoke_def return_def throw_def held_world_def quiet_world_def example_manager_def new_InstanceManager_def path_join_def example_lockPath_def example_impl_def InstanceManager_impl_def unreachable_main_def
        readLock_def readLock_try_def existsSync_def readFileSync_def example_JSON_def stale_record_def live_record_def lock_json_def toString_def digits.simps digit_def commas_def isPidAlive_def kill0_of_def Let_def)
  have fv: "im_fetchMainVersion example_impl ?s2 = (Inr None, ?s2)"
    by (simp add: held_world_def quiet_world_def example_manager_def new_InstanceManager_def path_join_def example_lockPath_def example_impl_def InstanceManager_impl_def unreachable_main_def tryBecomeMain_def tryBecomeMain_try_def tryBecomeMain_catch_def openSync_wx_def writeFileSync_fd_def closeSync_def Let_def)
  have ne: "(None :: string option) = None
              \<or> None \<noteq> Some (desiredVersion_of example_options example_impl ?s0)"
    by simp
  have rt: "im_requestMainTransition example_impl ?s2 = (Inr True, ?s2)"
    by (simp add: held_world_def quiet_world_def example_manager_def new_InstanceManager_def path_join_def example_lockPath_def example_impl_def InstanceManager_impl_def unreachable_main_def tryBecomeMain_def tryBecomeMain_try_def tryBecomeMain_catch_def openSync_wx_def writeFileSync_fd_def closeSync_def Let_def)
  have wp: "im_waitForPort example_impl (Some (waitForPortTimeoutMs_of example_options)) ?s2
              = (Inr True, ?s5)"
    by (simp add: waitForPortTimeoutMs_of_def example_options_def held_world_def quiet_world_def example_manager_def new_InstanceManager_def path_join_def example_lockPath_def
        example_impl_def InstanceManager_impl_def unreachable_main_def waitForPort_def waitForPort_loop.simps never_busy_def removeLock_def unlinkSync_def tryBecomeMain_def tryBecomeMain_try_def tryBecomeMain_catch_def openSync_wx_def writeFileSync_fd_def closeSync_def Let_def)
  have rl: "im_removeLock example_impl ?s5 = (Inr (), ?s6)"
    by (simp add: waitForPortTimeoutMs_of_def example_options_def held_world_def quiet_world_def example_manager_def new_InstanceManager_def path_join_def example_lockPath_def
        example_impl_def InstanceManager_impl_def unreachable_main_def waitForPort_def waitForPort_loop.simps never_busy_def removeLock_def unlinkSync_def tryBecomeMain_def tryBecomeMain_try_def tryBecomeMain_catch_def openSync_wx_def writeFileSync_fd_def closeSync_def Let_def)
  have tb: "im_tryBecomeMain example_impl ?s6 = (Inr True, ?s7)"
    by (simp add: waitForPortTimeoutMs_of_def example_options_def held_world_def quiet_world_def example_manager_def new_InstanceManager_def path_join_def example_lockPath_def
        example_impl_def InstanceManager_impl_def unreachable_main_def waitForPort_def waitForPort_loop.simps never_busy_def removeLock_def unlinkSync_def tryBecomeMain_def tryBecomeMain_try_def tryBecomeMain_catch_def openSync_wx_def writeFileSync_fd_def closeSync_def Let_def)
  have "waitForPortTimeoutMs_of example_options = 3000"
    by (simp add: waitForPortTimeoutMs_of_def example_options_def)
  with coordinate_version_transition [OF t0 st fv ne rt wp rl tb]
  show ?thesis by simp
qed

text \<open>
  C3: stale-lock recovery is enabled and the first \<open>tryBecomeMain\<close> returned \<open>false\<close>.
  The coordinator reads the lock; it takes the lock for stale exactly when the read gave
  \<open>null\<close> or the probe of the recorded pid failed (the probe is made only for a record).
  A stale lock is removed and \<open>tryBecomeMain\<close> called again; when that succeeds the
  result is main, with reason \<open>stale-lock\<close> if a record was read and \<open>lock-missing\<close> if
  not.  Otherwise, and when the lock is not stale (then nothing is removed), control
  goes on to the version check.
\<close>

theorem coordinate_stale_lock:
  assumes en: "removeStaleLock_of opts"
      and t0: "im_tryBecomeMain im s0 = (Inr False, s1)"
      and rd: "im_readLock im s1 = (Inr l, s2)"
      and rl: "im_removeLock im s2 = (Inr (), s3)"
      and tb: "im_tryBecomeMain im s3 = (Inr ok, s4)"
  shows "coordinateInstanceRole im kill0 opts (s0, []) =
     (if l = None \<or> \<not> isPidAlive (kill0 s2) (pid (the l)) then
        (if ok then
           (Inr (MainResult (if l \<noteq> None then stale_lock else lock_missing) None),
            (s4, [TryBecomeMain, ReadLock] @ probe_calls l @ [RemoveLock, TryBecomeMain]))
         else
           versionPhase im opts (desiredVersion_of opts im s0)
             (s4, [TryBecomeMain, ReadLock] @ probe_calls l @ [RemoveLock, TryBecomeMain]))
      else
        versionPhase im opts (desiredVersion_of opts im s0)
          (s2, [TryBecomeMain, ReadLock] @ probe_calls l))"
proof -
  have "lock_is_stale (kill0 s2) l \<longleftrightarrow> l = None \<or> \<not> isPidAlive (kill0 s2) (pid (the l))"
    by (cases l) (simp_all add: lock_is_stale_def)
  with assms show ?thesis
    by (simp add: coordinateInstanceRole_def staleLockPhase_def and_then_def invoke_def return_def throw_def Let_def
        isLockStale_apply)
qed

theorem coordinate_stale_lock_witness:
  "coordinateInstanceRole example_impl kill0_of example_options
          ((example_manager, corrupt_world), [])
     = (Inr (MainResult lock_missing None),
        (snd (tryBecomeMain example_JSON 777
                (snd (removeLock (example_manager, corrupt_world)))),
         [TryBecomeMain, ReadLock, RemoveLock, TryBecomeMain]))
   \<and> coordinateInstanceRole example_impl kill0_of example_options
          ((example_manager, stale_world), [])
     = (Inr (MainResult stale_lock None),
        (snd (tryBecomeMain example_JSON 777
                (snd (removeLock (example_manager\<lparr>lock := Some stale_record\<rparr>, stale_world)))),
         [TryBecomeMain, ReadLock, IsPidAlive 999999, RemoveLock, TryBecomeMain]))"
proof -
  let ?c0 = "(example_manager, corrupt_world)"
  let ?c3 = "snd (removeLock ?c0)"
  let ?c4 = "snd (tryBecomeMain example_JSON 777 ?c3)"
  let ?s0 = "(example_manager, stale_world)"
  let ?s2 = "(example_manager\<lparr>lock := Some stale_record\<rparr>, stale_world)"
  let ?s3 = "snd (removeLock ?s2)"
  let ?s4 = "snd (tryBecomeMain example_JSON 777 ?s3)"
  have en: "removeStaleLock_of example_options"
    by (simp add: removeStaleLock_of_def example_options_def)
  have c_t0: "im_tryBecomeMain example_impl ?c0 = (Inr False, ?c0)"
    and c_rd: "im_readLock example_impl ?c0 = (Inr None, ?c0)"
    and c_rl: "im_removeLock example_impl ?c0 = (Inr (), ?c3)"
    and c_tb: "im_tryBecomeMain example_impl ?c3 = (Inr True, ?c4)"
    by (simp_all add: corrupt_world_def stale_world_def quiet_world_def example_manager_def new_InstanceManager_def path_join_def example_lockPath_def example_impl_def InstanceManager_impl_def unreachable_main_def
        tryBecomeMain_def tryBecomeMain_try_def tryBecomeMain_catch_def openSync_wx_def writeFileSync_fd_def closeSync_def Let_def readLock_def readLock_try_def existsSync_def readFileSync_def removeLock_def unlinkSync_def example_JSON_def stale_record_def live_record_def lock_json_def toString_def digits.simps digit_def commas_def)
  have s_t0: "im_tryBecomeMain example_impl ?s0 = (Inr False, ?s0)"
    and s_rd: "im_readLock example_impl ?s0 = (Inr (Some stale_record), ?s2)"
    and s_rl: "im_removeLock example_impl ?s2 = (Inr (), ?s3)"
    and s_tb: "im_tryBecomeMain example_impl ?s3 = (Inr True, ?s4)"
    by (simp_all add: corrupt_world_def stale_world_def quiet_world_def example_manager_def new_InstanceManager_def path_join_def example_lockPath_def example_impl_def InstanceManager_impl_def unreachable_main_def
        tryBecomeMain_def tryBecomeMain_try_def tryBecomeMain_catch_def openSync_wx_def writeFileSync_fd_def closeSync_def Let_def readLock_def readLock_try_def existsSync_def readFileSync_def removeLock_def unlinkSync_def example_JSON_def stale_record_def live_record_def lock_json_def toString_def digits.simps digit_def commas_def)
  have dead: "\<not> isPidAlive (kill0_of ?s2) (pid stale_record)"
    by (simp add: stale_world_def quiet_world_def kill0_of_def isPidAlive_def stale_record_def)
  from coordinate_stale_lock [OF en c_t0 c_rd c_rl c_tb, of kill0_of]
    coordinate_stale_lock [OF en s_t0 s_rd s_rl s_tb, of kill0_of] dead
  show ?thesis
    by (simp add: probe_calls_def stale_record_def)
qed

section \<open>The reverse proxy's handler\<close>

lemma headers_set_keeps:
  "headers_set name v r = Inr r' \<Longrightarrow>
   req_method r' = req_method r \<and> req_url r' = req_url r \<and> req_body r' = req_body r"
  by (auto simp: headers_set_def split: if_splits)

lemma set_metadata_headers_keeps:
  "set_metadata_headers tp d r = Inr r' \<Longrightarrow>
   req_method r' = req_method r \<and> req_url r' = req_url r \<and> req_body r' = req_body r"
  by (auto simp: set_metadata_headers_def
      split: option.splits sum.splits if_splits dest!: headers_set_keeps)

lemma new_Request_Inr:
  "new_Request u init = Inr r' \<Longrightarrow> r' = init\<lparr>req_url := u\<rparr>"
  by (auto simp: new_Request_def split: if_splits)

lemma upstreamReq_preserves:
  assumes "upstreamReq tp md r = Inr u"
  shows "req_method u = req_method r
         \<and> pathname (req_url u) = pathname (req_url r)
         \<and> search (req_url u) = []
         \<and> req_body u = req_body r
         \<and> (md = None \<longrightarrow> req_headers u = req_headers r)"
proof (cases "new_Request (targetUrl tp r) r")
  case (Inl e)
  with assms show ?thesis by (simp add: upstreamReq_def)
next
  case (Inr r')
  then have r': "r' = r\<lparr>req_url := targetUrl tp r\<rparr>" by (rule new_Request_Inr)
  show ?thesis
  proof (cases md)
    case None
    with assms Inr have "u = r'"
      by (simp add: upstreamReq_def)
    with r' None show ?thesis
      by (simp add: targetUrl_def c_req_path_def)
  next
    case (Some d)
    with assms Inr have "set_metadata_headers tp d r' = Inr u"
      by (simp add: upstreamReq_def)
    from set_metadata_headers_keeps [OF this] r' Some show ?thesis
      by (simp add: targetUrl_def c_req_path_def)
  qed
qed

text \<open>
  C7: the query string is not forwarded.  The request \<open>GET /search?q=1\<close> reaches the
  main instance as \<open>GET /search\<close>: the upstream URL is built from the router's path,
  which stops at the question mark.  Method, path, headers and body are those of the
  incoming request (no metadata is configured here; metadata adds its \<open>X-Proxy-*\<close>
  headers).
\<close>

theorem upstreamReq_drops_query:
  "search (req_url example_request) = ''?q=1''
   \<and> upstreamReq 8989 None example_request
       = Inr (example_request
               \<lparr>req_url := \<lparr> origin = ''http://127.0.0.1:8989'', pathname = ''/search'',
                             search = [] \<rparr>\<rparr>)"
  by (simp add: upstreamReq_def new_Request_def forbidden_method_def targetUrl_def
      c_req_path_def example_request_def toString_def digits.simps digit_def)

lemma createProxyApp_failure:
  "upstreamReq tp md r = Inr u \<Longrightarrow> fetch u = Inl err \<Longrightarrow>
   createProxyApp J fetch tp md r =
     Inr (c_json J
           (JObj [(''error'', JStr ''Proxy error''),
                  (''message'', JStr (if instanceof_Error err then message err
                                      else ''Unknown error''))])
           502)"
  by (simp add: createProxyApp_def)

lemma createProxyApp_success:
  "upstreamReq tp md r = Inr u \<Longrightarrow> fetch u = Inr resp \<Longrightarrow>
   createProxyApp J fetch tp md r = Inr resp"
  by (simp add: createProxyApp_def)

lemma createProxyApp_throws:
  "upstreamReq tp md r = Inl e \<Longrightarrow> createProxyApp J fetch tp md r = Inl e"
  by (simp add: createProxyApp_def)

lemma serve_length: "length (ProxyManager_serve J upstream tp md k rs) = length rs"
  by (induction rs arbitrary: k) simp_all

lemma serve_nth:
  "i < length rs \<Longrightarrow>
   ProxyManager_serve J upstream tp md k rs ! i
     = proxyApp_fetch J (upstream (k + i)) tp md (rs ! i)"
proof (induction rs arbitrary: k i)
  case Nil
  then show ?case by simp
next
  case (Cons r rs)
  show ?case
  proof (cases i)
    case 0
    then show ?thesis by simp
  next
    case (Suc j)
    with Cons.prems have "j < length rs" by simp
    from Cons.IH [OF this, of "Suc k"] Suc show ?thesis by simp
  qed
qed

text \<open>
  C8: the upstream request of request number \<open>i\<close> was built and its exchange failed.
  Then that request is answered with status 502 and a JSON body of the two fields
  \<open>error\<close> and \<open>message\<close>; and the proxy goes on serving: every request of the
  sequence gets a response, and each request, earlier or later, whose own exchange
  succeeds gets the response of the main instance.
\<close>

theorem proxy_upstream_failure_502:
  assumes "i < length rs"
      and "upstreamReq tp md (rs ! i) = Inr u"
      and "upstream i u = Inl err"
  shows "(\<exists>msg. status (ProxyManager_serve J upstream tp md 0 rs ! i) = 502
            \<and> res_body (ProxyManager_serve J upstream tp md 0 rs ! i)
                = stringify J (JObj [(''error'', JStr ''Proxy error''), (''message'', JStr msg)]))
         \<and> length (ProxyManager_serve J upstream tp md 0 rs) = length rs
         \<and> (\<forall>j<length rs. \<forall>v resp.
               upstreamReq tp md (rs ! j) = Inr v \<and> upstream j v = Inr resp
               \<longrightarrow> ProxyManager_serve J upstream tp md 0 rs ! j = resp)"
proof (intro conjI allI impI)
  let ?msg = "if instanceof_Error err then message err else ''Unknown error''"
  have "ProxyManager_serve J upstream tp md 0 rs ! i
          = c_json J (JObj [(''error'', JStr ''Proxy error''), (''message'', JStr ?msg)]) 502"
    using assms by (simp add: serve_nth proxyApp_fetch_def createProxyApp_failure)
  then have "status (ProxyManager_serve J upstream tp md 0 rs ! i) = 502
      \<and> res_body (ProxyManager_serve J upstream tp md 0 rs ! i)
          = stringify J (JObj [(''error'', JStr ''Proxy error''), (''message'', JStr ?msg)])"
    by (simp add: c_json_def)
  then show "\<exists>msg. status (ProxyManager_serve J upstream tp md 0 rs ! i) = 502
      \<and> res_body (ProxyManager_serve J upstream tp md 0 rs ! i)
          = stringify J (JObj [(''error'', JStr ''Proxy error''), (''message'', JStr msg)])"
    by blast
next
  show "length (ProxyManager_serve J upstream tp md 0 rs) = length rs"
    by (rule serve_length)
next
  fix j v resp
  assume "j < length rs" and "upstreamReq tp md (rs ! j) = Inr v \<and> upstream j v = Inr resp"
  then show "ProxyManager_serve J upstream tp md 0 rs ! j = resp"
    by (simp add: serve_nth proxyApp_fetch_def createProxyApp_success)
qed

theorem proxy_upstream_failure_502_witness:
  "status (ProxyManager_serve example_JSON flaky_upstream 8989 None 0
             [example_request, example_request, trace_request, example_request] ! 1) = 502
   \<and> length (ProxyManager_serve example_JSON flaky_upstream 8989 None 0
             [example_request, example_request, trace_request, example_request]) = 4
   \<and> ProxyManager_serve example_JSON flaky_upstream 8989 None 0
             [example_request, example_request, trace_request, example_request] ! 3
       = \<lparr> status = 200, res_headers = Map.empty, res_body = ''from-main'' \<rparr>
   \<and> status (ProxyManager_serve example_JSON flaky_upstream 8989 None 0
             [example_request, example_request, trace_request, example_request] ! 2) = 500"
proof -
  let ?rs = "[example_request, example_request, trace_request, example_request]"
  let ?u = "example_request
              \<lparr>req_url := \<lparr> origin = ''http://127.0.0.1:8989'', pathname = ''/search'',
                            search = [] \<rparr>\<rparr>"
  have i: "(1::nat) < length ?rs"
    by simp
  have u1: "upstreamReq 8989 None (?rs ! 1) = Inr ?u"
    by (simp add: upstreamReq_def new_Request_def forbidden_method_def targetUrl_def
        c_req_path_def example_request_def toString_def digits.simps digit_def)
  have f: "flaky_upstream 1 ?u = Inl (TypeError ''fetch failed'')"
    by (simp add: flaky_upstream_def dead_upstream_def)
  have u3: "(3::nat) < length ?rs
            \<and> upstreamReq 8989 None (?rs ! 3) = Inr ?u
            \<and> flaky_upstream 3 ?u
                = Inr \<lparr> status = 200, res_headers = Map.empty, res_body = ''from-main'' \<rparr>"
    by (simp add: upstreamReq_def new_Request_def forbidden_method_def targetUrl_def
        c_req_path_def example_request_def toString_def digits.simps digit_def
        flaky_upstream_def live_upstream_def)
  have t: "status (ProxyManager_serve example_JSON flaky_upstream 8989 None 0 ?rs ! 2) = 500"
    by (simp add: serve_nth proxyApp_fetch_def createProxyApp_def upstreamReq_def
        new_Request_def forbidden_method_def trace_request_def example_request_def
        errorHandler_def)
  note served = proxy_upstream_failure_502
         [where i = 1 and rs = ?rs and upstream = flaky_upstream and tp = 8989 and md = None
            and u = ?u and err = "TypeError ''fetch failed''" and J = example_JSON, OF i u1 f]
  from served
  have one: "status (ProxyManager_serve example_JSON flaky_upstream 8989 None 0 ?rs ! 1) = 502"
    by blast
  from served
  have len: "length (ProxyManager_serve example_JSON flaky_upstream 8989 None 0 ?rs) = length ?rs"
    by blast
  from served u3
  have three: "ProxyManager_serve example_JSON flaky_upstream 8989 None 0 ?rs ! 3
                 = \<lparr> status = 200, res_headers = Map.empty, res_body = ''from-main'' \<rparr>"
    by blast
  from one len three t show ?thesis
    by simp
qed

section \<open>startMcpServer after a failed tryBecomeMain\<close>

lemma startProxyMode_trace:
  "snd (snd (startProxyMode cfg host im cli (s, tr))) =
     tr @ (if cli_mode cli = stdio then stdio_proxy_calls cfg im s
           else http_proxy_calls host im cli s)"
  by (auto simp: startProxyMode_def and_then_def invoke_def return_def throw_def console_def Let_def
      stdio_proxy_calls_def http_proxy_calls_def
      split: prod.splits sum.splits)

lemma startMcpServer_to_proxy:
  assumes "\<not> cli_help cli"
      and "hook OnInitialize (onInitialize host) (s0, []) = (Inr (), (s1, tr1))"
      and "im_tryBecomeMain im s1 = (Inr False, s2)"
  shows "startMcpServer cfg host im cli (s0, [])
           = startProxyMode cfg host im cli (s2, tr1 @ [TryBecomeMain])"
  using assms by (simp add: startMcpServer_def and_then_def invoke_def)

text \<open>
  C10: the command line did not ask for help, the initialisation hook (if any)
  returned, and \<open>tryBecomeMain\<close> returned \<open>false\<close>.  Then all that \<open>startMcpServer\<close> calls
  afterwards is the log line and the proxy starter of its mode: no read of the lock, no
  liveness probe, no version query, no transition request, no second \<open>tryBecomeMain\<close>.
  The version in the log line and in the proxy metadata is \<open>instanceManager.version\<close>,
  the local version.
\<close>

theorem startMcpServer_proxy_mode:
  assumes nh: "\<not> cli_help cli"
      and ini: "hook OnInitialize (onInitialize host) (s0, []) = (Inr (), (s1, tr1))"
      and t0: "im_tryBecomeMain im s1 = (Inr False, s2)"
  shows "snd (snd (startMcpServer cfg host im cli (s0, []))) =
           tr1 @ [TryBecomeMain]
             @ (if cli_mode cli = stdio then stdio_proxy_calls cfg im s2
                else http_proxy_calls host im cli s2)
         \<and> \<not> list_ex election_call
               (if cli_mode cli = stdio then stdio_proxy_calls cfg im s2
                else http_proxy_calls host im cli s2)"
  using startMcpServer_to_proxy [OF nh ini t0, of cfg]
  by (simp add: startProxyMode_trace stdio_proxy_calls_def http_proxy_calls_def election_call_def)

theorem startMcpServer_proxy_mode_witness:
  "snd (snd (startMcpServer example_config example_host example_impl example_cli
               ((example_manager, held_world), [])))
     = [TryBecomeMain,
        ConsoleLog ''[PROXY MODE] Main instance v2.0.0 running on port 3000. Starting HTTP proxy.'',
        ProxyManagerStart
          \<lparr> targetPort = 3000, listenPort = Some 3000,
            metadata = Some \<lparr> mainVersion = Some ''2.0.0'', mainPort = Some 3000,
                              instanceId = None, startTime = Some 1000 \<rparr> \<rparr>]
   \<and> version live_record = ''0.0.1''"
proof -
  let ?s0 = "(example_manager, held_world)"
  have nh: "\<not> cli_help example_cli"
    by (simp add: example_cli_def)
  have ini: "hook OnInitialize (onInitialize example_host) (?s0, []) = (Inr (), (?s0, []))"
    by (simp add: example_host_def hook_def return_def)
  have t0: "im_tryBecomeMain example_impl ?s0 = (Inr False, ?s0)"
    by (simp add: held_world_def quiet_world_def example_manager_def new_InstanceManager_def path_join_def example_lockPath_def example_impl_def InstanceManager_impl_def unreachable_main_def tryBecomeMain_def tryBecomeMain_try_def tryBecomeMain_catch_def openSync_wx_def writeFileSync_fd_def closeSync_def Let_def)
  from startMcpServer_proxy_mode [OF nh ini t0, of example_config] show ?thesis
    by (simp add: http_proxy_calls_def proxy_mode_message_def template_string_def
        example_config_def example_cli_def example_host_def held_world_def quiet_world_def
        example_manager_def new_InstanceManager_def path_join_def example_lockPath_def example_impl_def InstanceManager_impl_def unreachable_main_def live_record_def toString_def digits.simps digit_def)
qed


section \<open>Mutual exclusion of racing callers\<close>

lemma step_lockPath:
  "tryBecomeMain_step J c w = (c', w') \<Longrightarrow> lockPath (rc_manager c') = lockPath (rc_manager c)"
  by (auto simp: tryBecomeMain_step_def Let_def split: phase.splits sum.splits prod.splits)

lemma step_keeps_file:
  "tryBecomeMain_step J c w = (c', w') \<Longrightarrow> files w p \<noteq> None \<Longrightarrow> files w' p \<noteq> None"
  by (auto simp: tryBecomeMain_step_def Let_def openSync_wx_def writeFileSync_fd_def closeSync_def
      split: phase.splits sum.splits prod.splits option.splits if_splits)

lemma step_acquires:
  assumes "tryBecomeMain_step J c w = (c', w')" "\<not> holds_lock c" "holds_lock c'"
  shows "files w (lockPath (rc_manager c)) = None \<and> files w' (lockPath (rc_manager c)) \<noteq> None"
  using assms
  by (auto simp: tryBecomeMain_step_def Let_def holds_lock_def openSync_wx_def
      tryBecomeMain_catch_def
      split: phase.splits sum.splits prod.splits option.splits if_splits)

lemma race_inv_step:
  assumes inv: "race_inv p (cs, w)" and k: "k < length cs"
      and st: "tryBecomeMain_step J (cs ! k) w = (c', w')"
  shows "race_inv p (cs[k := c'], w')"
proof -
  from inv have paths: "\<forall>i<length cs. lockPath (rc_manager (cs ! i)) = p"
    and uniq: "\<forall>i<length cs. \<forall>j<length cs. holds_lock (cs ! i) \<and> holds_lock (cs ! j) \<longrightarrow> i = j"
    and fl: "(\<exists>i<length cs. holds_lock (cs ! i)) \<longrightarrow> files w p \<noteq> None"
    by (auto simp: race_inv_def)
  from paths k have pk: "lockPath (rc_manager (cs ! k)) = p" by simp
  have nth: "\<And>i. i < length cs \<Longrightarrow> (cs[k := c']) ! i = (if i = k then c' else cs ! i)"
    using k by (auto simp: nth_list_update)
  have paths': "\<forall>i<length (cs[k := c']). lockPath (rc_manager ((cs[k := c']) ! i)) = p"
    using paths pk step_lockPath [OF st] by (auto simp: nth)
  show ?thesis
  proof (cases "holds_lock c' \<and> \<not> holds_lock (cs ! k)")
    case True
    with step_acquires [OF st] pk have free: "files w p = None" and now: "files w' p \<noteq> None"
      by auto
    from free fl have none: "\<forall>i<length cs. \<not> holds_lock (cs ! i)" by auto
    have "\<forall>i<length cs. holds_lock ((cs[k := c']) ! i) \<longrightarrow> i = k"
      using none by (auto simp: nth split: if_splits)
    then have uniq': "\<forall>i<length (cs[k := c']). \<forall>j<length (cs[k := c']).
        holds_lock ((cs[k := c']) ! i) \<and> holds_lock ((cs[k := c']) ! j) \<longrightarrow> i = j"
      by auto
    from paths' uniq' now show ?thesis
      by (simp add: race_inv_def)
  next
    case False
    then have sub: "\<And>i. i < length cs \<Longrightarrow> holds_lock ((cs[k := c']) ! i) \<Longrightarrow> holds_lock (cs ! i)"
      by (auto simp: nth split: if_splits)
    have uniq': "\<forall>i<length (cs[k := c']). \<forall>j<length (cs[k := c']).
        holds_lock ((cs[k := c']) ! i) \<and> holds_lock ((cs[k := c']) ! j) \<longrightarrow> i = j"
      using uniq sub by auto
    have file': "(\<exists>i<length (cs[k := c']). holds_lock ((cs[k := c']) ! i)) \<longrightarrow> files w' p \<noteq> None"
    proof
      assume "\<exists>i<length (cs[k := c']). holds_lock ((cs[k := c']) ! i)"
      then obtain i where "i < length cs" "holds_lock (cs ! i)"
        using sub by auto
      with fl have "files w p \<noteq> None" by auto
      with step_keeps_file [OF st] show "files w' p \<noteq> None" by simp
    qed
    from paths' uniq' file' show ?thesis
      by (simp add: race_inv_def)
  qed
qed

lemma race_inv_event:
  assumes "race_inv p st" "keeps p e"
  shows "race_inv p (exec_event J e st)"
proof (cases st)
  case (Pair cs w)
  show ?thesis
  proof (cases e)
    case (Step k)
    show ?thesis
    proof (cases "k < length cs")
      case True
      obtain c' w' where s: "tryBecomeMain_step J (cs ! k) w = (c', w')"
        by (cases "tryBecomeMain_step J (cs ! k) w") auto
      from race_inv_step [OF _ True s] assms(1) Pair Step True s show ?thesis
        by simp
    next
      case False
      with assms(1) Pair Step show ?thesis by simp
    qed
  next
    case (Env f)
    with assms Pair show ?thesis
      by (auto simp: race_inv_def)
  qed
qed

lemma race_inv_run:
  "race_inv p st \<Longrightarrow> \<forall>e\<in>set evs. keeps p e \<Longrightarrow> race_inv p (run J evs st)"
  by (induction evs arbitrary: st) (simp_all add: race_inv_event)

lemma locked_out_event:
  assumes "locked_out p st" "keeps p e"
  shows "locked_out p (exec_event J e st)"
proof (cases st)
  case (Pair cs w)
  show ?thesis
  proof (cases e)
    case (Step k)
    show ?thesis
    proof (cases "k < length cs")
      case True
      obtain c' w' where s: "tryBecomeMain_step J (cs ! k) w = (c', w')"
        by (cases "tryBecomeMain_step J (cs ! k) w") auto
      from assms(1) Pair True have pk: "lockPath (rc_manager (cs ! k)) = p"
        and nk: "\<not> holds_lock (cs ! k)" and f: "files w p \<noteq> None"
        by (auto simp: locked_out_def)
      from step_acquires [OF s nk] pk f have "\<not> holds_lock c'" by auto
      moreover from step_lockPath [OF s] pk have "lockPath (rc_manager c') = p" by simp
      moreover from step_keeps_file [OF s f] have "files w' p \<noteq> None" .
      ultimately show ?thesis
        using assms(1) Pair Step True s
        by (auto simp: locked_out_def nth_list_update split: if_splits)
    next
      case False
      with assms(1) Pair Step show ?thesis by simp
    qed
  next
    case (Env f)
    with assms Pair show ?thesis
      by (auto simp: locked_out_def)
  qed
qed

lemma locked_out_run:
  "locked_out p st \<Longrightarrow> \<forall>e\<in>set evs. keeps p e \<Longrightarrow> locked_out p (run J evs st)"
  by (induction evs arbitrary: st) (simp_all add: locked_out_event)

lemma returned_true_holds: "returned_true c \<Longrightarrow> holds_lock c"
  by (simp add: returned_true_def holds_lock_def)

lemma fresh_race_inv: "\<forall>c\<in>set cs. fresh_caller p c \<Longrightarrow> race_inv p (cs, w)"
  by (auto simp: race_inv_def fresh_caller_def holds_lock_def)

lemma fresh_locked_out:
  "\<forall>c\<in>set cs. fresh_caller p c \<Longrightarrow> files w p \<noteq> None \<Longrightarrow> locked_out p (cs, w)"
  by (auto simp: locked_out_def fresh_caller_def holds_lock_def)

text \<open>
  The three steps of one caller, taken without interruption, are \<open>tryBecomeMain\<close>.
\<close>

lemma three_steps_are_tryBecomeMain:
  assumes "rc_phase c = NotStarted"
      and "tryBecomeMain_step J c w = (c1, w1)"
      and "tryBecomeMain_step J c1 w1 = (c2, w2)"
      and "tryBecomeMain_step J c2 w2 = (c3, w3)"
  shows "tryBecomeMain J (rc_pid c) (rc_manager c, w) = (r, s')
           \<longleftrightarrow> rc_phase c3 = Finished r \<and> (rc_manager c3, w3) = s'"
  using assms
  by (auto simp: tryBecomeMain_step_def tryBecomeMain_def tryBecomeMain_try_def Let_def
      split: sum.splits prod.splits)

text \<open>
  C1: any number of callers race on the lock path \<open>p\<close>, their system calls interleaved
  in any order with anything else that happens on the host, as long as nothing removes
  what is at \<open>p\<close>.  Then at most one of the calls returns \<open>true\<close>; and none does if
  something was at \<open>p\<close> when the race began (the lock was already taken).  What decides
  is the exclusive open: it succeeds only where nothing is at the path, and puts a
  file there.
\<close>

theorem at_most_one_becomes_main:
  assumes fresh: "\<forall>c\<in>set cs. fresh_caller p c"
      and keep: "\<forall>e\<in>set evs. keeps p e"
      and fin: "run J evs (cs, w) = (cs', w')"
      and i: "i < length cs'" and j: "j < length cs'"
  shows "(returned_true (cs' ! i) \<and> returned_true (cs' ! j) \<longrightarrow> i = j)
         \<and> (files w p \<noteq> None \<longrightarrow> \<not> returned_true (cs' ! i))"
proof
  from race_inv_run [OF fresh_race_inv [OF fresh] keep, where w1 = w and J = J] fin
  have "race_inv p (cs', w')" by simp
  with i j show "returned_true (cs' ! i) \<and> returned_true (cs' ! j) \<longrightarrow> i = j"
    by (auto simp: race_inv_def dest: returned_true_holds)
next
  show "files w p \<noteq> None \<longrightarrow> \<not> returned_true (cs' ! i)"
  proof
    assume "files w p \<noteq> None"
    from locked_out_run [OF fresh_locked_out [OF fresh this] keep, where J = J] fin
    have "locked_out p (cs', w')" by simp
    with i show "\<not> returned_true (cs' ! i)"
      by (auto simp: locked_out_def dest: returned_true_holds)
  qed
qed

theorem at_most_one_becomes_main_witness:
  "returned_true
     (fst (run example_JSON example_race
             ([example_caller 101, example_caller 102, example_caller 103], empty_world)) ! 1)
   \<and> \<not> returned_true
     (fst (run example_JSON example_race
             ([example_caller 101, example_caller 102, example_caller 103], empty_world)) ! 0)
   \<and> \<not> returned_true
     (fst (run example_JSON example_race
             ([example_caller 101, example_caller 102, example_caller 103], empty_world)) ! 2)
   \<and> \<not> returned_true
     (fst (run example_JSON example_race
             ([example_caller 101, example_caller 102, example_caller 103], held_world)) ! 1)"
proof -
  let ?cs = "[example_caller 101, example_caller 102, example_caller 103]"
  let ?r = "run example_JSON example_race (?cs, empty_world)"
  let ?h = "run example_JSON example_race (?cs, held_world)"
  have fresh: "\<forall>c\<in>set ?cs. fresh_caller example_lockPath c"
    by (simp add: fresh_caller_def example_caller_def example_manager_def new_InstanceManager_def path_join_def example_lockPath_def)
  have keep: "\<forall>e\<in>set example_race. keeps example_lockPath e"
    by (simp add: example_race_def tick_def)
  have len: "length (fst ?r) = 3" "length (fst ?h) = 3"
    by (simp_all add: example_race_def example_caller_def tick_def tryBecomeMain_step_def
        empty_world_def held_world_def quiet_world_def example_manager_def new_InstanceManager_def path_join_def example_lockPath_def
        tryBecomeMain_catch_def openSync_wx_def writeFileSync_fd_def closeSync_def Let_def)
  have one: "returned_true (fst ?r ! 1)"
    by (simp add: returned_true_def example_race_def example_caller_def tick_def
        tryBecomeMain_step_def empty_world_def quiet_world_def example_manager_def new_InstanceManager_def path_join_def example_lockPath_def
        tryBecomeMain_catch_def openSync_wx_def writeFileSync_fd_def closeSync_def Let_def)
  have taken: "files held_world example_lockPath \<noteq> None"
    by (simp add: held_world_def quiet_world_def example_lockPath_def)
  have r: "?r = (fst ?r, snd ?r)" and h: "?h = (fst ?h, snd ?h)"
    by simp_all
  from one taken
    at_most_one_becomes_main [OF fresh keep r, of 0 1]
    at_most_one_becomes_main [OF fresh keep r, of 2 1]
    at_most_one_becomes_main [OF fresh keep h, of 1 1]
    len
  show ?thesis by simp
qed


end
